theory Spec2Isabelle
  imports Complex_Main "HOL-Library.AList"
begin

section \<open>Numbers\<close>

text \<open>
  The simulation computes with JavaScript numbers. Positions, velocities, shapes and the
  terrain grid are modelled as mathematical reals: what is proved about them is about
  comparisons and clamps of the values the program stores, not about rounding. The
  numbers that are accumulated or clamped step by step (health, the reload timer, the
  age of a projectile, the coordinates handed to the height query) are IEEE doubles,
  \<open>jsnum\<close> below. Counters that the program only ever assigns integers to (ammunition,
  grid indices, the grid resolution) are \<open>int\<close> or \<open>nat\<close>.
\<close>

text \<open>
  A JavaScript number: a finite value, one of the two infinities, or \<open>NaN\<close>. The finite
  values a program can hold are the doubles (\<open>is_double\<close>); every arithmetic operation
  rounds its exact result to the nearest double, ties to the even significand
  (\<open>to_double\<close>). There is one zero: the sign of a zero is not represented, and a division
  by zero treats the divisor as \<open>+0\<close>.
\<close>

datatype jsnum = Num real | PosInf | NegInf | NaN

instantiation jsnum :: zero
begin

definition zero_jsnum :: jsnum where
  "zero_jsnum = Num 0"

instance ..

end

text \<open>
  The binary exponent of a double with magnitude \<open>a\<close>: the largest \<open>e\<close> between \<open>-1022\<close>
  and \<open>1023\<close> with \<open>2\<^sup>e \<le> a\<close>, and \<open>-1022\<close> (the subnormal range) when there is none. The
  doubles around \<open>x\<close> are the multiples of \<open>ulp x\<close>, 52 binary places below the exponent.
\<close>

fun expo_search :: "nat \<Rightarrow> real \<Rightarrow> int" where
  "expo_search 0 a = - 1022"
| "expo_search (Suc n) a =
     (if 2 powi (int n - 1021) \<le> a then int n - 1021 else expo_search n a)"

definition exponent :: "real \<Rightarrow> int" where
  "exponent x = expo_search 2045 \<bar>x\<bar>"

definition ulp :: "real \<Rightarrow> real" where
  "ulp x = 2 powi (exponent x - 52)"

text \<open>Rounding to the nearest integer, a tie going to the even one.\<close>

definition round_even :: "real \<Rightarrow> int" where
  "round_even y =
     (let f = \<lfloor>y\<rfloor>
      in if y - of_int f < 1/2 then f
         else if 1/2 < y - of_int f then f + 1
         else if even f then f else f + 1)"

definition round_double :: "real \<Rightarrow> real" where
  "round_double x = of_int (round_even (x / ulp x)) * ulp x"

text \<open>A result of magnitude \<open>2\<^sup>1\<^sup>0\<^sup>2\<^sup>4\<close> or more after rounding overflows to an infinity.\<close>

definition to_double :: "real \<Rightarrow> jsnum" where
  "to_double x =
     (let r = round_double x
      in if 2 ^ 1024 \<le> r then PosInf else if r \<le> - (2 ^ 1024) then NegInf else Num r)"

definition is_double :: "real \<Rightarrow> bool" where
  "is_double x \<longleftrightarrow> to_double x = Num x"

text \<open>The operators \<open>+\<close>, \<open>-\<close>, \<open>*\<close>, \<open>/\<close>, \<open>Math.floor\<close>, \<open>\<le>\<close>, \<open>\<ge>\<close>, \<open>Math.min\<close> and
  \<open>Math.max\<close>. A comparison with \<open>NaN\<close> is false; \<open>Math.min\<close> and \<open>Math.max\<close> return
  \<open>NaN\<close> when an argument is \<open>NaN\<close>.\<close>

fun js_add :: "jsnum \<Rightarrow> jsnum \<Rightarrow> jsnum" where
  "js_add (Num a) (Num b) = to_double (a + b)"
| "js_add NaN y = NaN"
| "js_add x NaN = NaN"
| "js_add PosInf NegInf = NaN"
| "js_add NegInf PosInf = NaN"
| "js_add PosInf y = PosInf"
| "js_add x PosInf = PosInf"
| "js_add NegInf y = NegInf"
| "js_add x NegInf = NegInf"

fun js_sub :: "jsnum \<Rightarrow> jsnum \<Rightarrow> jsnum" where
  "js_sub (Num a) (Num b) = to_double (a - b)"
| "js_sub NaN y = NaN"
| "js_sub x NaN = NaN"
| "js_sub PosInf PosInf = NaN"
| "js_sub NegInf NegInf = NaN"
| "js_sub PosInf y = PosInf"
| "js_sub x NegInf = PosInf"
| "js_sub NegInf y = NegInf"
| "js_sub x PosInf = NegInf"




fun js_le :: "jsnum \<Rightarrow> jsnum \<Rightarrow> bool" where
  "js_le (Num a) (Num b) \<longleftrightarrow> a \<le> b"
| "js_le NaN y \<longleftrightarrow> False"
| "js_le x NaN \<longleftrightarrow> False"
| "js_le NegInf y \<longleftrightarrow> True"
| "js_le x PosInf \<longleftrightarrow> True"
| "js_le PosInf y \<longleftrightarrow> False"
| "js_le x NegInf \<longleftrightarrow> False"

definition js_ge :: "jsnum \<Rightarrow> jsnum \<Rightarrow> bool" where
  "js_ge x y \<longleftrightarrow> js_le y x"

definition js_min :: "jsnum \<Rightarrow> jsnum \<Rightarrow> jsnum" where
  "js_min x y = (if x = NaN \<or> y = NaN then NaN else if js_le x y then x else y)"

definition js_max :: "jsnum \<Rightarrow> jsnum \<Rightarrow> jsnum" where
  "js_max x y = (if x = NaN \<or> y = NaN then NaN else if js_le x y then y else x)"


section \<open>Vectors, bodies and nodes\<close>

record vec3 =
  vx :: real
  vy :: real
  vz :: real

definition vec :: "real \<Rightarrow> real \<Rightarrow> real \<Rightarrow> vec3" where
  "vec a b c = \<lparr>vx = a, vy = b, vz = c\<rparr>"

definition scale_vec :: "real \<Rightarrow> vec3 \<Rightarrow> vec3" where
  "scale_vec k v = vec (k * vx v) (k * vy v) (k * vz v)"

definition plus_vec :: "vec3 \<Rightarrow> vec3 \<Rightarrow> vec3" where
  "plus_vec a b = vec (vx a + vx b) (vy a + vy b) (vz a + vz b)"

definition vec_length :: "vec3 \<Rightarrow> real" where
  "vec_length v = sqrt (vx v * vx v + vy v * vy v + vz v * vz v)"

text \<open>\<open>Vector3.normalize\<close> divides by the length, or by 1 when the length is 0.\<close>

definition normalize_vec :: "vec3 \<Rightarrow> vec3" where
  "normalize_vec v = (if vec_length v = 0 then v else scale_vec (1 / vec_length v) v)"

text \<open>
  The role tag is the \<open>userData\<close> object of a rigid body; the classifier reads its
  properties \<open>type\<close>, \<open>id\<close>, \<open>ownerId\<close> and \<open>damage\<close>, each of which may be absent.
\<close>

record user_data =
  udType :: "string option"
  udId :: "string option"
  udOwnerId :: "string option"
  udDamage :: "real option"

datatype shape =
  Box vec3
  | Sphere real
  | Cylinder real real real nat
  | Heightfield "real list list" real

text \<open>
  A rigid body of the physics engine. \<open>bodyRef\<close> is the identity of the object (two
  entities may hold the same body), \<open>rotation\<close> the Euler angles its quaternion is set
  from, \<open>localForces\<close> the forces handed to \<open>applyLocalForce\<close> so far.
\<close>

record body =
  bodyRef :: nat
  mass :: real
  position :: vec3
  velocity :: vec3
  rotation :: vec3
  shapes :: "(shape \<times> vec3) list"
  userData :: "user_data option"
  localForces :: "vec3 list"

datatype orientation = FromEuler vec3 | LookingAt vec3

text \<open>A visual node of the render scene, with its identity.\<close>

record node =
  nodeRef :: nat
  nodePosition :: vec3
  nodeOrientation :: orientation

section \<open>Entity (entities/Entity.ts)\<close>

record entity =
  entityId :: string
  object3D :: "node option"
  physicsBody :: "body option"

section \<open>Tank (entities/Tank.ts)\<close>

text \<open>
  Class \<open>Tank\<close> extends \<open>Entity\<close>; the record carries the fields that its weapon, health
  and update methods read and write.
\<close>

record tank = entity +
  health :: jsnum
  maxHealth :: jsnum
  ammo :: int
  maxAmmo :: int
  reloadTime :: jsnum
  isReloading :: bool
  reloadTimer :: jsnum
  damageDealt :: real
  isGrounded :: bool

definition Tank_createPhysicsBody :: "nat \<Rightarrow> string \<Rightarrow> vec3 \<Rightarrow> vec3 \<Rightarrow> body" where
  "Tank_createPhysicsBody ref ident p r =
     \<lparr>bodyRef = ref, mass = 1500, position = p, velocity = vec 0 0 0, rotation = r,
      shapes = [(Box (vec 1.5 0.5 2), vec 0 0 0), (Box (vec 1 0.4 1.5), vec 0 1 0)],
      userData = Some \<lparr>udType = Some ''tank'', udId = Some ident,
                        udOwnerId = None, udDamage = None\<rparr>,
      localForces = []\<rparr>"

text \<open>
  The constructor: the field initialisers of the class, the visual group and the body.
  The identifier (built from the clock and a random string in the source) and the two
  object identities are parameters.
\<close>

definition new_tank :: "string \<Rightarrow> nat \<Rightarrow> nat \<Rightarrow> vec3 \<Rightarrow> vec3 \<Rightarrow> tank" where
  "new_tank ident nref bref p r =
     \<lparr>entityId = ident,
      object3D = Some \<lparr>nodeRef = nref, nodePosition = p, nodeOrientation = FromEuler r\<rparr>,
      physicsBody = Some (Tank_createPhysicsBody bref ident p r),
      health = Num 100, maxHealth = Num 100, ammo = 5, maxAmmo = 5, reloadTime = Num 2,
      isReloading = False, reloadTimer = 0, damageDealt = 0, isGrounded = False\<rparr>"

definition startReload :: "tank \<Rightarrow> tank" where
  "startReload t = t\<lparr>isReloading := True, reloadTimer := 0\<rparr>"

text \<open>\<open>fire\<close> returns its boolean result together with the tank it leaves behind.\<close>

definition fire :: "tank \<Rightarrow> bool \<times> tank" where
  "fire t =
     (if ammo t \<le> 0 \<or> isReloading t then (False, t)
      else let t1 = t\<lparr>ammo := ammo t - 1\<rparr>;
               t2 = (if ammo t1 \<le> 0 then startReload t1 else t1)
           in (True, t2))"

definition damage :: "jsnum \<Rightarrow> tank \<Rightarrow> tank" where
  "damage amount t = t\<lparr>health := js_max (Num 0) (js_sub (health t) amount)\<rparr>"

definition heal :: "jsnum \<Rightarrow> tank \<Rightarrow> tank" where
  "heal amount t = t\<lparr>health := js_min (maxHealth t) (js_add (health t) amount)\<rparr>"

definition setHealth :: "jsnum \<Rightarrow> tank \<Rightarrow> tank" where
  "setHealth h t = t\<lparr>health := js_max (Num 0) (js_min (maxHealth t) h)\<rparr>"

definition isDead :: "tank \<Rightarrow> bool" where
  "isDead t \<longleftrightarrow> js_le (health t) (Num 0)"

text \<open>
  \<open>update\<close>, first half: when the tank has both a body and a node, the node takes the
  body's position and orientation; if the tank touched the ground in the last collision
  pass the flag is cleared, the anti-sink force is applied and the downward velocity is
  capped at \<open>-5\<close>.
\<close>

definition sync_body :: "tank \<Rightarrow> tank" where
  "sync_body t =
     (case (physicsBody t, object3D t) of
        (Some b, Some n) \<Rightarrow>
          (let n1 = n\<lparr>nodePosition := position b, nodeOrientation := FromEuler (rotation b)\<rparr>;
               t1 = t\<lparr>object3D := Some n1\<rparr>
           in if isGrounded t1
              then let b1 = b\<lparr>localForces := localForces b @ [vec 0 (mass b * 9.82 * 1.02) 0]\<rparr>;
                       b2 = (if vy (velocity b1) < - 5
                             then b1\<lparr>velocity := (velocity b1)\<lparr>vy := - 5\<rparr>\<rparr> else b1)
                   in t1\<lparr>isGrounded := False, physicsBody := Some b2\<rparr>
              else t1)
      | _ \<Rightarrow> t)"

text \<open>\<open>update\<close>, second half: the reload timer.\<close>

definition advance_reload :: "jsnum \<Rightarrow> tank \<Rightarrow> tank" where
  "advance_reload delta t =
     (if isReloading t
      then let t1 = t\<lparr>reloadTimer := js_add (reloadTimer t) delta\<rparr>
           in if js_ge (reloadTimer t1) (reloadTime t1)
              then t1\<lparr>isReloading := False, reloadTimer := 0, ammo := maxAmmo t1\<rparr>
              else t1
      else t)"

definition Tank_update :: "jsnum \<Rightarrow> tank \<Rightarrow> tank" where
  "Tank_update delta t = advance_reload delta (sync_body t)"

text \<open>Calling \<open>fire\<close> \<open>n\<close> times in a row: the results in call order, and the final tank.\<close>

fun fire_times :: "nat \<Rightarrow> tank \<Rightarrow> bool list \<times> tank" where
  "fire_times 0 t = ([], t)"
| "fire_times (Suc n) t =
     (let (r, t1) = fire t; (rs, t2) = fire_times n t1 in (r # rs, t2))"

text \<open>Sequences of the three health operations.\<close>

datatype health_op = Damage jsnum | Heal jsnum | SetHealth jsnum

fun apply_health_op :: "tank \<Rightarrow> health_op \<Rightarrow> tank" where
  "apply_health_op t (Damage a) = damage a t"
| "apply_health_op t (Heal a) = heal a t"
| "apply_health_op t (SetHealth h) = setHealth h t"

definition run_health_ops :: "tank \<Rightarrow> health_op list \<Rightarrow> tank" where
  "run_health_ops t ops = foldl apply_health_op t ops"

text \<open>
  An argument that is a number, and for damage and heal an amount that is not negative
  (\<open>js_le\<close> is false of \<open>NaN\<close>).
\<close>

fun valid_health_op :: "health_op \<Rightarrow> bool" where
  "valid_health_op (Damage a) \<longleftrightarrow> js_le (Num 0) a"
| "valid_health_op (Heal a) \<longleftrightarrow> js_le (Num 0) a"
| "valid_health_op (SetHealth h) \<longleftrightarrow> h \<noteq> NaN"

text \<open>A run of \<open>update\<close> calls with the given frame deltas.\<close>

definition run_updates :: "tank \<Rightarrow> jsnum list \<Rightarrow> tank" where
  "run_updates t ds = foldl (\<lambda>s d. Tank_update d s) t ds"

text \<open>
  What a counter holds after the deltas \<open>ds\<close> have been added to it one by one, when it
  started at 0: their running sum, each addition rounded.
\<close>

definition running_sum :: "jsnum list \<Rightarrow> jsnum" where
  "running_sum ds = foldl js_add (Num 0) ds"

text \<open>The state a finished reload leaves behind.\<close>

definition reloaded :: "tank \<Rightarrow> bool" where
  "reloaded t \<longleftrightarrow> \<not> isReloading t \<and> reloadTimer t = 0 \<and> ammo t = maxAmmo t"

section \<open>Projectile (entities/Projectile.ts)\<close>

record projectile = entity +
  direction :: vec3
  speed :: real
  projectileDamage :: real
  ownerId :: string
  lifeTime :: jsnum
  age :: jsnum
  radius :: real

definition Projectile_createPhysicsBody ::
  "nat \<Rightarrow> string \<Rightarrow> string \<Rightarrow> real \<Rightarrow> real \<Rightarrow> vec3 \<Rightarrow> vec3 \<Rightarrow> real \<Rightarrow> body" where
  "Projectile_createPhysicsBody ref ident owner dmg rad p dir spd =
     \<lparr>bodyRef = ref, mass = 5, position = p,
      velocity = vec (vx dir * spd) (vy dir * spd) (vz dir * spd),
      rotation = vec 0 0 0, shapes = [(Sphere rad, vec 0 0 0)],
      userData = Some \<lparr>udType = Some ''projectile'', udId = Some ident,
                        udOwnerId = Some owner, udDamage = Some dmg\<rparr>,
      localForces = []\<rparr>"

definition new_projectile ::
  "string \<Rightarrow> nat \<Rightarrow> nat \<Rightarrow> vec3 \<Rightarrow> vec3 \<Rightarrow> real \<Rightarrow> real \<Rightarrow> string \<Rightarrow> projectile" where
  "new_projectile ident nref bref p dir spd dmg owner =
     (let d = normalize_vec dir
      in \<lparr>entityId = ident,
          object3D = Some \<lparr>nodeRef = nref, nodePosition = p,
                            nodeOrientation = LookingAt (plus_vec p d)\<rparr>,
          physicsBody = Some (Projectile_createPhysicsBody bref ident owner dmg 0.2 p d spd),
          direction = d, speed = spd, projectileDamage = dmg, ownerId = owner,
          lifeTime = Num 5, age = Num 0, radius = 0.2\<rparr>)"




section \<open>Player (entities/Player.ts)\<close>

text \<open>
  Class \<open>Player\<close> extends \<open>Entity\<close> and owns a tank. Its constructor passes the player's
  identifier to \<open>super\<close> and takes the node and the body of the tank as its own.
\<close>

record player = entity +
  username :: string
  tank :: tank
  isLocal :: bool
  score :: int
  kills :: int
  deaths :: int

definition new_player :: "string \<Rightarrow> string \<Rightarrow> tank \<Rightarrow> bool \<Rightarrow> player" where
  "new_player ident name t loc =
     \<lparr>entityId = ident, object3D = object3D t, physicsBody = physicsBody t,
      username = name, tank = t, isLocal = loc, score = 0, kills = 0, deaths = 0\<rparr>"

text \<open>
  The entities of the game behind the abstract class: the methods \<open>getId\<close>,
  \<open>getObject3D\<close> and \<open>getPhysicsBody\<close> are inherited by all three subclasses;
  \<open>dispose\<close> is virtual. Its result is the list of the entities whose \<open>dispose\<close> ran, in
  the order of the calls: \<open>Tank\<close> inherits \<open>Entity.dispose\<close>, \<open>Projectile.dispose\<close> only
  calls \<open>super.dispose\<close>, and \<open>Player.dispose\<close> disposes the tank it owns before it calls
  \<open>super.dispose\<close>.
\<close>

datatype game_entity = ATank tank | AProjectile projectile | APlayer player

fun getId :: "game_entity \<Rightarrow> string" where
  "getId (ATank t) = entityId t"
| "getId (AProjectile p) = entityId p"
| "getId (APlayer p) = entityId p"

fun getObject3D :: "game_entity \<Rightarrow> node option" where
  "getObject3D (ATank t) = object3D t"
| "getObject3D (AProjectile p) = object3D p"
| "getObject3D (APlayer p) = object3D p"

fun getPhysicsBody :: "game_entity \<Rightarrow> body option" where
  "getPhysicsBody (ATank t) = physicsBody t"
| "getPhysicsBody (AProjectile p) = physicsBody p"
| "getPhysicsBody (APlayer p) = physicsBody p"

fun dispose :: "game_entity \<Rightarrow> string list" where
  "dispose (ATank t) = [entityId t]"
| "dispose (AProjectile p) = [entityId p]"
| "dispose (APlayer p) = [entityId p, entityId (tank p)]"

section \<open>CollisionManager (core/CollisionManager.ts)\<close>

text \<open>
  The events the \<open>beginContact\<close> listener emits, one constructor per event name, with
  the payload of the source. An identifier read through \<open>userData?.id\<close> may be absent.
\<close>

datatype collision_event =
  ProjectileHitTank "string option" "string option" "string option" real vec3
  | ProjectileHitObstacle "string option" "string option" vec3
  | ProjectileHitGround "string option" vec3
  | TankHitObstacle "string option" "string option"
  | TankHitGround "string option" vec3

fun event_name :: "collision_event \<Rightarrow> string" where
  "event_name (ProjectileHitTank _ _ _ _ _) = ''projectileHitTank''"
| "event_name (ProjectileHitObstacle _ _ _) = ''projectileHitObstacle''"
| "event_name (ProjectileHitGround _ _) = ''projectileHitGround''"
| "event_name (TankHitObstacle _ _) = ''tankHitObstacle''"
| "event_name (TankHitGround _ _) = ''tankHitGround''"

text \<open>The optional chains \<open>body.userData?.type\<close>, \<open>?.id\<close>, \<open>?.ownerId\<close>.\<close>

definition typeOf :: "body \<Rightarrow> string option" where
  "typeOf b = (case userData b of None \<Rightarrow> None | Some u \<Rightarrow> udType u)"

definition idOf :: "body \<Rightarrow> string option" where
  "idOf b = (case userData b of None \<Rightarrow> None | Some u \<Rightarrow> udId u)"

definition ownerIdOf :: "body \<Rightarrow> string option" where
  "ownerIdOf b = (case userData b of None \<Rightarrow> None | Some u \<Rightarrow> udOwnerId u)"

text \<open>\<open>userData?.damage || 20\<close>: an absent or zero damage falls back to 20.\<close>

definition damageOf :: "body \<Rightarrow> real" where
  "damageOf b =
     (case userData b of
        None \<Rightarrow> 20
      | Some u \<Rightarrow> (case udDamage u of None \<Rightarrow> 20 | Some d \<Rightarrow> if d = 0 then 20 else d))"

text \<open>The test that opens each of the five blocks: the two tags, in either order.\<close>

definition tagged :: "string \<Rightarrow> string \<Rightarrow> body \<Rightarrow> body \<Rightarrow> bool" where
  "tagged r1 r2 bodyA bodyB \<longleftrightarrow>
     (typeOf bodyA = Some r1 \<and> typeOf bodyB = Some r2)
     \<or> (typeOf bodyA = Some r2 \<and> typeOf bodyB = Some r1)"

text \<open>\<open>bodyA.userData?.type === r ? bodyA : bodyB\<close>.\<close>

definition pick :: "string \<Rightarrow> body \<Rightarrow> body \<Rightarrow> body" where
  "pick r bodyA bodyB = (if typeOf bodyA = Some r then bodyA else bodyB)"

text \<open>
  The listener registered by \<open>setupCollisionEvents\<close>. It returns at once when a body is
  missing; otherwise the five blocks run one after the other, each emitting at most one
  event. The result is the list of events emitted, in order.
\<close>

definition beginContact :: "body option \<Rightarrow> body option \<Rightarrow> collision_event list" where
  "beginContact a b =
     (case (a, b) of
        (Some bodyA, Some bodyB) \<Rightarrow>
          (if tagged ''projectile'' ''tank'' bodyA bodyB
           then [ProjectileHitTank (idOf (pick ''projectile'' bodyA bodyB))
                   (idOf (pick ''tank'' bodyA bodyB))
                   (ownerIdOf (pick ''projectile'' bodyA bodyB))
                   (damageOf (pick ''projectile'' bodyA bodyB))
                   (position (pick ''projectile'' bodyA bodyB))]
           else [])
          @ (if tagged ''projectile'' ''obstacle'' bodyA bodyB
             then [ProjectileHitObstacle (idOf (pick ''projectile'' bodyA bodyB))
                     (idOf (pick ''obstacle'' bodyA bodyB))
                     (position (pick ''projectile'' bodyA bodyB))]
             else [])
          @ (if tagged ''projectile'' ''ground'' bodyA bodyB
             then [ProjectileHitGround (idOf (pick ''projectile'' bodyA bodyB))
                     (position (pick ''projectile'' bodyA bodyB))]
             else [])
          @ (if tagged ''tank'' ''obstacle'' bodyA bodyB
             then [TankHitObstacle (idOf (pick ''tank'' bodyA bodyB))
                     (idOf (pick ''obstacle'' bodyA bodyB))]
             else [])
          @ (if tagged ''tank'' ''ground'' bodyA bodyB
             then [TankHitGround (idOf (pick ''tank'' bodyA bodyB))
                     (position (pick ''tank'' bodyA bodyB))]
             else [])
      | _ \<Rightarrow> [])"

text \<open>The four role tags, and the five unordered pairs of them that have a block.\<close>

definition known_role :: "string option \<Rightarrow> bool" where
  "known_role r \<longleftrightarrow>
     r = Some ''tank'' \<or> r = Some ''projectile'' \<or> r = Some ''ground'' \<or> r = Some ''obstacle''"

definition known_pairs :: "(string \<times> string \<times> string) list" where
  "known_pairs =
     [(''projectile'', ''tank'', ''projectileHitTank''),
      (''projectile'', ''obstacle'', ''projectileHitObstacle''),
      (''projectile'', ''ground'', ''projectileHitGround''),
      (''tank'', ''obstacle'', ''tankHitObstacle''),
      (''tank'', ''ground'', ''tankHitGround'')]"

section \<open>WorldObject (world/WorldObject.ts)\<close>

record world_object =
  woType :: string
  woPosition :: vec3
  woScale :: vec3
  woRotation :: vec3
  woId :: string

text \<open>
  \<open>createPhysicsBody\<close> by object type. The three numbers drawn from \<open>Math.random\<close> for a
  building are parameters. No branch, and nothing after the \<open>switch\<close>, writes
  \<open>userData\<close>; the body is static.
\<close>

definition WorldObject_createPhysicsBody ::
  "nat \<Rightarrow> real \<Rightarrow> real \<Rightarrow> real \<Rightarrow> world_object \<Rightarrow> body" where
  "WorldObject_createPhysicsBody ref r1 r2 r3 w =
     (let p = woPosition w; s = woScale w;
          blank = \<lparr>bodyRef = ref, mass = 0, position = p, velocity = vec 0 0 0,
                   rotation = woRotation w, shapes = [], userData = None, localForces = []\<rparr>
      in if woType w = ''tree''
         then blank\<lparr>shapes := [(Cylinder (0.2 * vx s) (0.3 * vx s) (2 * vy s) 8,
                                   vec 0 (1 * vy s) 0)]\<rparr>
         else if woType w = ''rock''
         then blank\<lparr>shapes := [(Box (vec (0.8 * vx s) (0.8 * vy s) (0.8 * vz s)), vec 0 0 0)]\<rparr>
         else if woType w = ''building''
         then let buildingWidth = 2 + r1 * 2; buildingDepth = 2 + r2 * 2;
                  buildingHeight = 2 + r3 * 3
              in blank\<lparr>position := vec (vx p) (vy p + buildingHeight / 2 * vy s) (vz p),
                        shapes := [(Box (vec (buildingWidth / 2 * vx s)
                                             (buildingHeight / 2 * vy s)
                                             (buildingDepth / 2 * vz s)), vec 0 0 0)]\<rparr>
         else blank\<lparr>shapes := [(Box (vec (0.5 * vx s) (0.5 * vy s) (0.5 * vz s)), vec 0 0 0)]\<rparr>)"

section \<open>EntityManager (core/EntityManager.ts)\<close>

text \<open>
  The manager's map from identifiers to entities (in insertion order, as a JavaScript
  \<open>Map\<close> keeps it), together with the two engine objects it drives: the children of the
  render scene and the bodies of the physics world, both as lists of object identities.
  \<open>disposeCalls\<close> logs the entities whose \<open>dispose\<close> method has run.
\<close>

record entity_manager =
  entities :: "(string \<times> game_entity) list"
  scene :: "nat list"
  physicsWorld :: "nat list"
  disposeCalls :: "string list"

text \<open>
  The engine calls. \<open>Scene.add\<close> detaches the node from its parent before appending it;
  \<open>World.addBody\<close> ignores a body it already holds; \<open>Scene.remove\<close> and
  \<open>World.removeBody\<close> look the object up and splice it out when it is there.
\<close>

definition scene_add :: "nat \<Rightarrow> nat list \<Rightarrow> nat list" where
  "scene_add r ns = removeAll r ns @ [r]"

definition world_addBody :: "nat \<Rightarrow> nat list \<Rightarrow> nat list" where
  "world_addBody r bs = (if r \<in> set bs then bs else bs @ [r])"

definition scene_remove :: "nat \<Rightarrow> nat list \<Rightarrow> nat list" where
  "scene_remove r ns = remove1 r ns"

definition world_removeBody :: "nat \<Rightarrow> nat list \<Rightarrow> nat list" where
  "world_removeBody r bs = remove1 r bs"

definition addEntity :: "game_entity \<Rightarrow> entity_manager \<Rightarrow> entity_manager" where
  "addEntity e m =
     (let m1 = m\<lparr>entities := AList.update (getId e) e (entities m)\<rparr>;
          m2 = (case getObject3D e of
                  Some n \<Rightarrow> m1\<lparr>scene := scene_add (nodeRef n) (scene m1)\<rparr>
                | None \<Rightarrow> m1)
      in case getPhysicsBody e of
           Some b \<Rightarrow> m2\<lparr>physicsWorld := world_addBody (bodyRef b) (physicsWorld m2)\<rparr>
         | None \<Rightarrow> m2)"

text \<open>
  \<open>removeEntity\<close> tests nothing: it deletes the key, hands node and body to the engine,
  and calls the entity's \<open>dispose\<close>.
\<close>

definition removeEntity :: "game_entity \<Rightarrow> entity_manager \<Rightarrow> entity_manager" where
  "removeEntity e m =
     (let m1 = m\<lparr>entities := AList.delete (getId e) (entities m)\<rparr>;
          m2 = (case getObject3D e of
                  Some n \<Rightarrow> m1\<lparr>scene := scene_remove (nodeRef n) (scene m1)\<rparr>
                | None \<Rightarrow> m1);
          m3 = (case getPhysicsBody e of
                  Some b \<Rightarrow> m2\<lparr>physicsWorld := world_removeBody (bodyRef b) (physicsWorld m2)\<rparr>
                | None \<Rightarrow> m2)
      in m3\<lparr>disposeCalls := disposeCalls m3 @ dispose e\<rparr>)"

definition registered :: "game_entity \<Rightarrow> entity_manager \<Rightarrow> bool" where
  "registered e m \<longleftrightarrow> getId e \<in> fst ` set (entities m)"

definition empty_manager :: entity_manager where
  "empty_manager = \<lparr>entities = [], scene = [], physicsWorld = [], disposeCalls = []\<rparr>"

definition node_attached :: "game_entity \<Rightarrow> entity_manager \<Rightarrow> bool" where
  "node_attached e m \<longleftrightarrow>
     (case getObject3D e of None \<Rightarrow> False | Some n \<Rightarrow> nodeRef n \<in> set (scene m))"

definition body_attached :: "game_entity \<Rightarrow> entity_manager \<Rightarrow> bool" where
  "body_attached e m \<longleftrightarrow>
     (case getPhysicsBody e of None \<Rightarrow> False | Some b \<Rightarrow> bodyRef b \<in> set (physicsWorld m))"

section \<open>Terrain (world/Terrain.ts)\<close>

text \<open>The plane geometry of the visual surface: its extent, its segments, and the height
  written into each vertex, in vertex order.\<close>

record plane_geometry =
  planeWidth :: real
  planeDepth :: real
  widthSegments :: nat
  depthSegments :: nat
  vertexHeights :: "real list"

record terrain =
  terrainSize :: real
  resolution :: nat
  maxHeight :: real
  heightData :: "real list list"
  geometry :: "plane_geometry option"
  terrainBody :: "body option"

definition new_terrain :: "real \<Rightarrow> nat \<Rightarrow> real \<Rightarrow> terrain" where
  "new_terrain sz res mh =
     \<lparr>terrainSize = sz, resolution = res, maxHeight = mh, heightData = [],
      geometry = None, terrainBody = None\<rparr>"

text \<open>
  The octave loop of \<open>generateHeightData\<close>, with the number of iterations still to run.
  The noise primitive \<open>noise2D\<close> comes from the noise library, seeded from the ambient
  random generator; it is a parameter.
\<close>

fun octave_loop ::
  "(real \<Rightarrow> real \<Rightarrow> real) \<Rightarrow> real \<Rightarrow> real \<Rightarrow> nat \<Rightarrow> real \<Rightarrow> real \<Rightarrow> real \<Rightarrow> real" where
  "octave_loop noise2D x z 0 height frequency amplitude = height"
| "octave_loop noise2D x z (Suc k) height frequency amplitude =
     octave_loop noise2D x z k (height + noise2D (x * frequency) (z * frequency) * amplitude)
       (frequency * 2) (amplitude * 0.5)"

text \<open>
  The body of the two nested loops: the height stored at grid node \<open>(i, j)\<close>. With
  \<open>resolution = 0\<close> the source divides 0 by 0 and no number comes out; what is stated
  about samples below is stated for \<open>resolution > 0\<close>.
\<close>

definition sample_height :: "(real \<Rightarrow> real \<Rightarrow> real) \<Rightarrow> terrain \<Rightarrow> nat \<Rightarrow> nat \<Rightarrow> real" where
  "sample_height noise2D t i j =
     (let x = real i / real (resolution t);
          z = real j / real (resolution t);
          h0 = octave_loop noise2D x z 6 0 1 1;
          h1 = (h0 + 1) / 2;
          h2 = h1 * maxHeight t
      in if h2 < maxHeight t * 0.3 then maxHeight t * 0.3 else h2)"

definition generateHeightData :: "(real \<Rightarrow> real \<Rightarrow> real) \<Rightarrow> terrain \<Rightarrow> terrain" where
  "generateHeightData noise2D t =
     t\<lparr>heightData :=
         map (\<lambda>i. map (\<lambda>j. sample_height noise2D t i j) [0..<resolution t + 1])
           [0..<resolution t + 1]\<rparr>"

text \<open>
  \<open>createTerrainGeometry\<close>: a plane of \<open>size \<times> size\<close> with \<open>resolution\<close> segments each
  way, hence \<open>(resolution + 1)\<^sup>2\<close> vertices; vertex \<open>j\<close> takes the grid value at row
  \<open>j div (resolution + 1)\<close> and column \<open>j mod (resolution + 1)\<close>.
\<close>

definition createTerrainGeometry :: "terrain \<Rightarrow> terrain" where
  "createTerrainGeometry t =
     t\<lparr>geometry := Some
         \<lparr>planeWidth = terrainSize t, planeDepth = terrainSize t,
          widthSegments = resolution t, depthSegments = resolution t,
          vertexHeights =
            map (\<lambda>j. heightData t ! (j div (resolution t + 1)) ! (j mod (resolution t + 1)))
              [0..<(resolution t + 1) * (resolution t + 1)]\<rparr>\<rparr>"

text \<open>
  \<open>createPhysicsBody\<close>: the grid is copied for \<open>i, j < resolution\<close> into the data of a
  height-field shape with sample spacing \<open>size / resolution\<close>, on a static body placed at
  \<open>(-size/2, 0, -size/2)\<close> and tagged \<open>ground\<close>.
\<close>

definition heightfieldData :: "terrain \<Rightarrow> real list list" where
  "heightfieldData t =
     map (\<lambda>i. map (\<lambda>j. heightData t ! i ! j) [0..<resolution t]) [0..<resolution t]"

definition Terrain_createPhysicsBody :: "nat \<Rightarrow> terrain \<Rightarrow> terrain" where
  "Terrain_createPhysicsBody ref t =
     t\<lparr>terrainBody := Some
         \<lparr>bodyRef = ref, mass = 0,
          position = vec (- terrainSize t / 2) 0 (- terrainSize t / 2),
          velocity = vec 0 0 0, rotation = vec 0 0 0,
          shapes = [(Heightfield (heightfieldData t) (terrainSize t / real (resolution t)),
                     vec 0 0 0)],
          userData = Some \<lparr>udType = Some ''ground'', udId = None,
                            udOwnerId = None, udDamage = None\<rparr>,
          localForces = []\<rparr>\<rparr>"

text \<open>\<open>generate\<close> runs the three private steps in this order, and nothing else calls them.\<close>

definition generate :: "(real \<Rightarrow> real \<Rightarrow> real) \<Rightarrow> nat \<Rightarrow> terrain \<Rightarrow> terrain" where
  "generate noise2D ref t =
     Terrain_createPhysicsBody ref (createTerrainGeometry (generateHeightData noise2D t))"

text \<open>
  A grid of \<open>n\<close> samples spaced \<open>elementSize\<close> apart spans \<open>(n - 1) * elementSize\<close>: the
  side of the collision surface, to compare with the side of the visual plane.
\<close>

definition heightfieldSpan :: "shape \<Rightarrow> real" where
  "heightfieldSpan s =
     (case s of Heightfield d e \<Rightarrow> (real (length d) - 1) * e | _ \<Rightarrow> 0)"

definition heightfieldSamples :: "shape \<Rightarrow> real list list" where
  "heightfieldSamples s = (case s of Heightfield d e \<Rightarrow> d | _ \<Rightarrow> [])"








text \<open>What the two surfaces of a generated terrain are made of.\<close>

definition visualHeights :: "terrain \<Rightarrow> real list" where
  "visualHeights t = (case geometry t of Some g \<Rightarrow> vertexHeights g | None \<Rightarrow> [])"

definition visualSpan :: "terrain \<Rightarrow> real" where
  "visualSpan t = (case geometry t of Some g \<Rightarrow> planeWidth g | None \<Rightarrow> 0)"

definition collisionShape :: "terrain \<Rightarrow> shape option" where
  "collisionShape t =
     (case terrainBody t of
        Some b \<Rightarrow> (case shapes b of (s, off) # rest \<Rightarrow> Some s | [] \<Rightarrow> None)
      | None \<Rightarrow> None)"

definition collisionSamples :: "terrain \<Rightarrow> real list list" where
  "collisionSamples t = (case collisionShape t of Some s \<Rightarrow> heightfieldSamples s | None \<Rightarrow> [])"

definition collisionSpan :: "terrain \<Rightarrow> real" where
  "collisionSpan t = (case collisionShape t of Some s \<Rightarrow> heightfieldSpan s | None \<Rightarrow> 0)"

text \<open>A noise primitive with values in \<open>[-1, 1]\<close>: 0.8 on the line \<open>x = 1/2\<close>, 0.6 on the
  line \<open>x = 1\<close>, and 0 elsewhere.\<close>

definition spike_noise :: "real \<Rightarrow> real \<Rightarrow> real" where
  "spike_noise x z = (if x = 1/2 then 4/5 else if x = 1 then 3/5 else 0)"


section \<open>Properties of the number model\<close>

lemma expo_search_upper: "expo_search n a \<le> int n - 1022"
  by (induction n) auto

lemma expo_search_lower: "- 1022 \<le> expo_search n a"
  by (induction n) auto

lemma expo_search_eq:
  assumes "2 powi e \<le> a" "a < 2 powi (e + 1)" "- 1022 \<le> e" "e \<le> int n - 1022"
  shows "expo_search n a = e"
  using assms(4)
proof (induction n)
  case 0
  then show ?case using assms(3) by simp
next
  case (Suc n)
  show ?case
  proof (cases "e = int n - 1021")
    case True
    then show ?thesis using assms(1) by simp
  next
    case False
    then have le: "e \<le> int n - 1022" using Suc.prems by simp
    then have "e + 1 \<le> int n - 1021" by simp
    then have "(2::real) powi (e + 1) \<le> 2 powi (int n - 1021)"
      by (intro power_int_increasing) simp_all
    then have "\<not> 2 powi (int n - 1021) \<le> a" using assms(2) by simp
    then show ?thesis using Suc.IH [OF le] by simp
  qed
qed

lemma expo_search_mono: "a \<le> b \<Longrightarrow> expo_search n a \<le> expo_search n b"
proof (induction n)
  case 0
  then show ?case by simp
next
  case (Suc n)
  have u: "expo_search n a \<le> int n - 1021"
    using expo_search_upper [of n a] by simp
  show ?case using Suc u by auto
qed

lemma exponent_eq:
  assumes "2 powi e \<le> \<bar>x\<bar>" "\<bar>x\<bar> < 2 powi (e + 1)" "- 1022 \<le> e" "e \<le> 1023"
  shows "exponent x = e"
  unfolding exponent_def using assms by (intro expo_search_eq) simp_all

lemma exponent_mono: "\<bar>a\<bar> \<le> \<bar>b\<bar> \<Longrightarrow> exponent a \<le> exponent b"
  unfolding exponent_def by (rule expo_search_mono)

lemma ulp_pos: "0 < ulp x"
  by (simp add: ulp_def)

lemma to_double_eval:
  assumes "2 powi e \<le> \<bar>x\<bar>" "\<bar>x\<bar> < 2 powi (e + 1)" "- 1022 \<le> e" "e \<le> 1023"
  shows "to_double x =
     (let r = of_int (round_even (x / 2 powi (e - 52))) * 2 powi (e - 52)
      in if 2 ^ 1024 \<le> r then PosInf else if r \<le> - (2 ^ 1024) then NegInf else Num r)"
  using exponent_eq [OF assms] by (simp add: to_double_def round_double_def ulp_def)

lemma to_double_zero: "to_double 0 = Num 0"
  by (simp add: to_double_def round_double_def round_even_def)


lemma round_even_le: "y \<le> of_int k \<Longrightarrow> round_even y \<le> k"
proof -
  assume a: "y \<le> of_int k"
  then have f: "\<lfloor>y\<rfloor> \<le> k" by (simp add: floor_le_iff)
  show ?thesis
  proof (cases "\<lfloor>y\<rfloor> = k")
    case True
    then have "of_int k \<le> y" by (metis of_int_floor_le)
    then have "y = of_int k" using a by simp
    then show ?thesis by (simp add: round_even_def)
  next
    case False
    then have "\<lfloor>y\<rfloor> + 1 \<le> k" using f by simp
    then show ?thesis using f by (simp add: round_even_def Let_def)
  qed
qed

lemma round_even_ge: "of_int k \<le> y \<Longrightarrow> k \<le> round_even y"
proof -
  assume "of_int k \<le> y"
  then have "k \<le> \<lfloor>y\<rfloor>" by (simp add: le_floor_iff)
  then show ?thesis by (simp add: round_even_def Let_def)
qed

lemma round_double_nonneg: "0 \<le> x \<Longrightarrow> 0 \<le> round_double x"
proof -
  assume "0 \<le> x"
  then have "of_int 0 \<le> x / ulp x" using ulp_pos [of x] by simp
  then have "0 \<le> round_even (x / ulp x)" by (rule round_even_ge)
  then show ?thesis using ulp_pos [of x] by (simp add: round_double_def)
qed

lemma round_double_nonpos: "x \<le> 0 \<Longrightarrow> round_double x \<le> 0"
proof -
  assume "x \<le> 0"
  then have "x / ulp x \<le> of_int 0" using ulp_pos [of x] by (simp add: divide_le_0_iff)
  then have "round_even (x / ulp x) \<le> 0" by (rule round_even_le)
  then show ?thesis using ulp_pos [of x] by (simp add: round_double_def mult_le_0_iff)
qed

lemma is_double_round: "is_double m \<Longrightarrow> round_double m = m"
  by (auto simp add: is_double_def to_double_def Let_def split: if_splits)

lemma is_double_range: "is_double m \<Longrightarrow> \<bar>m\<bar> < 2 ^ 1024"
  by (auto simp add: is_double_def to_double_def Let_def split: if_splits)

text \<open>A double of at least the magnitude of \<open>y\<close> lies on the grid that \<open>y\<close> is rounded to.\<close>

lemma double_on_grid:
  assumes "is_double m" "\<bar>y\<bar> \<le> \<bar>m\<bar>"
  shows "\<exists>k. m = of_int k * ulp y"
proof -
  have e: "exponent y \<le> exponent m" using assms(2) by (rule exponent_mono)
  define d where "d = nat (exponent m - exponent y)"
  have "ulp m = 2 powi (exponent y - 52 + int d)"
    using e by (simp add: ulp_def d_def)
  also have "\<dots> = 2 powi (exponent y - 52) * 2 powi (int d)"
    by (simp add: power_int_add)
  also have "\<dots> = ulp y * 2 ^ d" by (simp add: ulp_def)
  finally have u: "ulp m = ulp y * 2 ^ d" .
  have "m = of_int (round_even (m / ulp m)) * ulp m"
    using is_double_round [OF assms(1)] by (simp add: round_double_def)
  also have "\<dots> = of_int (round_even (m / ulp m) * 2 ^ d) * ulp y"
    by (simp add: u)
  finally show ?thesis by blast
qed

lemma round_double_bounded:
  assumes "is_double m" "\<bar>y\<bar> \<le> \<bar>m\<bar>"
  shows "(y \<le> m \<longrightarrow> round_double y \<le> m) \<and> (m \<le> y \<longrightarrow> m \<le> round_double y)"
proof -
  obtain k where k: "m = of_int k * ulp y" using double_on_grid [OF assms] by blast
  have p: "0 < ulp y" by (rule ulp_pos)
  have "round_double y \<le> m" if "y \<le> m"
  proof -
    have "y / ulp y \<le> of_int k" using that k p by (simp add: pos_divide_le_eq)
    then have "round_even (y / ulp y) \<le> k" by (rule round_even_le)
    then have "of_int (round_even (y / ulp y)) * ulp y \<le> of_int k * ulp y"
      using p by simp
    then show ?thesis by (simp add: round_double_def k)
  qed
  moreover have "m \<le> round_double y" if "m \<le> y"
  proof -
    have "of_int k \<le> y / ulp y" using that k p by (simp add: pos_le_divide_eq)
    then have "k \<le> round_even (y / ulp y)" by (rule round_even_ge)
    then have "of_int k * ulp y \<le> of_int (round_even (y / ulp y)) * ulp y"
      using p by simp
    then show ?thesis by (simp add: round_double_def k)
  qed
  ultimately show ?thesis by blast
qed

text \<open>Rounding never carries a value across a non-negative double above it.\<close>

lemma round_double_below:
  assumes "is_double m" "0 \<le> m" "y \<le> m"
  shows "round_double y \<le> m"
proof (cases "\<bar>y\<bar> \<le> \<bar>m\<bar>")
  case True
  then show ?thesis using round_double_bounded [OF assms(1) True] assms(3) by blast
next
  case False
  then have "y \<le> 0" using assms(2,3) by linarith
  then have "round_double y \<le> 0" by (rule round_double_nonpos)
  then show ?thesis using assms(2) by simp
qed

lemma is_double_examples:
  "is_double 0" "is_double 100" "is_double (2 ^ 1023)" "is_double (- (2 ^ 1023))"
proof -
  show "is_double 0" by (simp add: is_double_def to_double_zero)
  show "is_double 100"
    unfolding is_double_def
    by (subst to_double_eval [where e = 6])
       (simp_all add: power_int_def power_divide round_even_def Let_def)
  show "is_double (2 ^ 1023)"
    unfolding is_double_def
    by (subst to_double_eval [where e = 1023])
       (simp_all add: power_int_def power_divide round_even_def Let_def)
  show "is_double (- (2 ^ 1023))"
    unfolding is_double_def
    by (subst to_double_eval [where e = 1023])
       (simp_all add: power_int_def power_divide round_even_def Let_def)
qed

text \<open>A value that rounds to a number: the result is the rounded value.\<close>

lemma to_double_cases:
  "to_double x = PosInf \<and> 2 ^ 1024 \<le> round_double x
   \<or> to_double x = NegInf \<and> round_double x \<le> - (2 ^ 1024)
   \<or> to_double x = Num (round_double x) \<and> \<bar>round_double x\<bar> < 2 ^ 1024"
  by (auto simp add: to_double_def Let_def)

lemma to_double_nonneg:
  assumes "0 \<le> x"
  shows "to_double x = PosInf \<or> (\<exists>r. to_double x = Num r \<and> 0 \<le> r)"
  using to_double_cases [of x] round_double_nonneg [OF assms] by auto

lemma to_double_below:
  assumes "is_double m" "0 \<le> m" "x \<le> m"
  shows "to_double x = NegInf \<or> (\<exists>r. to_double x = Num r \<and> r \<le> m)"
  using to_double_cases [of x] round_double_below [OF assms] is_double_range [OF assms(1)]
  by auto


lemma js_le_refl: "x \<noteq> NaN \<Longrightarrow> js_le x x"
  by (cases x) simp_all

section \<open>Properties of the tank\<close>

subsection \<open>Firing\<close>

lemma fire_blocked: "ammo t \<le> 0 \<or> isReloading t \<Longrightarrow> fire t = (False, t)"
  by (simp add: fire_def)

lemma fire_ok:
  "0 < ammo t \<Longrightarrow> \<not> isReloading t \<Longrightarrow>
   fire t = (True, if ammo t = 1 then t\<lparr>ammo := 0, isReloading := True, reloadTimer := 0\<rparr>
                   else t\<lparr>ammo := ammo t - 1\<rparr>)"
  by (auto simp add: fire_def startReload_def Let_def)

lemma fire_ammo_nonneg: "0 \<le> ammo t \<Longrightarrow> 0 \<le> ammo (snd (fire t))"
  by (auto simp add: fire_def startReload_def Let_def)

lemma fire_times_ammo_nonneg: "0 \<le> ammo t \<Longrightarrow> 0 \<le> ammo (snd (fire_times n t))"
proof (induction n arbitrary: t)
  case 0
  then show ?case by simp
next
  case (Suc n)
  have "0 \<le> ammo (snd (fire t))" using Suc.prems by (rule fire_ammo_nonneg)
  then have "0 \<le> ammo (snd (fire_times n (snd (fire t))))" by (rule Suc.IH)
  then show ?case by (simp add: split_beta Let_def)
qed

lemma fire_times_five:
  assumes "ammo t = 5" "\<not> isReloading t"
  shows "fst (fire_times 6 t) = [True, True, True, True, True, False]"
    and "\<not> isReloading (snd (fire_times 4 t))"
    and "isReloading (snd (fire_times 5 t))"
    and "ammo (snd (fire_times 5 t)) = 0"
    and "snd (fire_times 6 t) = snd (fire_times 5 t)"
  using assms
  by (simp_all add: eval_nat_numeral fire_def startReload_def Let_def split_beta)

text \<open>
  C4. \<open>fire\<close> returns false and leaves the tank as it is when there is no ammunition or a
  reload is running; otherwise it returns true, takes one round, and starts the reload
  (flag set, timer zeroed) exactly when that was the last round. A tank with five rounds
  of five that is not reloading fires five times with result true, the fifth shot starting
  the reload, and the sixth call returns false and changes nothing. Whatever the number of
  calls, ammunition that was not negative stays not negative.
\<close>

theorem fire_contract:
  "(ammo t \<le> 0 \<or> isReloading t \<longrightarrow> fire t = (False, t))
   \<and> (0 < ammo t \<and> \<not> isReloading t \<longrightarrow>
        fire t = (True, if ammo t = 1
                        then t\<lparr>ammo := 0, isReloading := True, reloadTimer := 0\<rparr>
                        else t\<lparr>ammo := ammo t - 1\<rparr>))
   \<and> (ammo t = 5 \<and> maxAmmo t = 5 \<and> \<not> isReloading t \<longrightarrow>
        fst (fire_times 6 t) = [True, True, True, True, True, False]
        \<and> \<not> isReloading (snd (fire_times 4 t))
        \<and> isReloading (snd (fire_times 5 t))
        \<and> ammo (snd (fire_times 5 t)) = 0
        \<and> snd (fire_times 6 t) = snd (fire_times 5 t))
   \<and> (0 \<le> ammo t \<longrightarrow> 0 \<le> ammo (snd (fire_times n t)))"
  using fire_blocked [of t] fire_ok [of t] fire_times_five [of t] fire_times_ammo_nonneg [of t n]
  by blast

theorem fire_contract_witness:
  "fire (new_tank ''t1'' 1 2 (vec 0 0 0) (vec 0 0 0))
     = (True, (new_tank ''t1'' 1 2 (vec 0 0 0) (vec 0 0 0))\<lparr>ammo := 4\<rparr>)
   \<and> fst (fire_times 6 (new_tank ''t1'' 1 2 (vec 0 0 0) (vec 0 0 0)))
       = [True, True, True, True, True, False]
   \<and> isReloading (snd (fire_times 5 (new_tank ''t1'' 1 2 (vec 0 0 0) (vec 0 0 0))))
   \<and> 0 \<le> ammo (snd (fire_times 9 (new_tank ''t1'' 1 2 (vec 0 0 0) (vec 0 0 0))))
   \<and> fire ((new_tank ''t1'' 1 2 (vec 0 0 0) (vec 0 0 0))\<lparr>ammo := 0\<rparr>)
       = (False, (new_tank ''t1'' 1 2 (vec 0 0 0) (vec 0 0 0))\<lparr>ammo := 0\<rparr>)"
  using fire_contract [of "new_tank ''t1'' 1 2 (vec 0 0 0) (vec 0 0 0)" 9]
        fire_contract [of "(new_tank ''t1'' 1 2 (vec 0 0 0) (vec 0 0 0))\<lparr>ammo := 0\<rparr>" 0]
  by (simp add: new_tank_def)

subsection \<open>Health\<close>

lemma damage_range:
  assumes "is_double M" "maxHealth t = Num M" "health t = Num h" "0 \<le> h" "h \<le> M"
    and "js_le (Num 0) a"
  shows "\<exists>h'. health (damage a t) = Num h' \<and> 0 \<le> h' \<and> h' \<le> M"
proof (cases a)
  case (Num d)
  then have "0 \<le> d" using assms(6) by simp
  then have "h - d \<le> M" using assms(5) by simp
  then have "to_double (h - d) = NegInf \<or> (\<exists>r. to_double (h - d) = Num r \<and> r \<le> M)"
    using to_double_below [OF assms(1)] assms(4,5) by simp
  then show ?thesis using Num assms(3,4,5)
    by (auto simp add: damage_def js_max_def)
next
  case PosInf
  then show ?thesis using assms(3,4,5) by (simp add: damage_def js_max_def)
next
  case NegInf
  then show ?thesis using assms(6) by simp
next
  case NaN
  then show ?thesis using assms(6) by simp
qed

lemma heal_range:
  assumes "maxHealth t = Num M" "health t = Num h" "0 \<le> h" "h \<le> M"
    and "js_le (Num 0) a"
  shows "\<exists>h'. health (heal a t) = Num h' \<and> 0 \<le> h' \<and> h' \<le> M"
proof (cases a)
  case (Num d)
  then have "0 \<le> h + d" using assms(3,5) by simp
  then have "to_double (h + d) = PosInf \<or> (\<exists>r. to_double (h + d) = Num r \<and> 0 \<le> r)"
    by (rule to_double_nonneg)
  then show ?thesis using Num assms(1,2,3,4)
    by (auto simp add: heal_def js_min_def)
next
  case PosInf
  then show ?thesis using assms(1,2,3,4) by (simp add: heal_def js_min_def)
next
  case NegInf
  then show ?thesis using assms(5) by simp
next
  case NaN
  then show ?thesis using assms(5) by simp
qed

lemma setHealth_range:
  assumes "maxHealth t = Num M" "0 \<le> M" "v \<noteq> NaN"
  shows "\<exists>h'. health (setHealth v t) = Num h' \<and> 0 \<le> h' \<and> h' \<le> M"
  using assms by (cases v) (auto simp add: setHealth_def js_min_def js_max_def)

lemma health_op_maxHealth: "maxHealth (apply_health_op t op) = maxHealth t"
  by (cases op) (simp_all add: damage_def heal_def setHealth_def)

lemma health_op_range:
  assumes "is_double M" "maxHealth t = Num M" "health t = Num h" "0 \<le> h" "h \<le> M"
    and "valid_health_op op"
  shows "\<exists>h'. health (apply_health_op t op) = Num h' \<and> 0 \<le> h' \<and> h' \<le> M"
proof (cases op)
  case (Damage a)
  then show ?thesis using damage_range [OF assms(1-5), of a] assms(6) by simp
next
  case (Heal a)
  then show ?thesis using heal_range [OF assms(2-5), of a] assms(6) by simp
next
  case (SetHealth v)
  have "0 \<le> M" using assms(4,5) by simp
  then show ?thesis using SetHealth setHealth_range [OF assms(2), of v] assms(6) by simp
qed

lemma run_health_ops_range:
  assumes "is_double M" "maxHealth t = Num M" "health t = Num h" "0 \<le> h" "h \<le> M"
    and "\<forall>op\<in>set ops. valid_health_op op"
  shows "maxHealth (run_health_ops t ops) = Num M
         \<and> (\<exists>h'. health (run_health_ops t ops) = Num h' \<and> 0 \<le> h' \<and> h' \<le> M)"
  using assms(2-6) unfolding run_health_ops_def
proof (induction ops arbitrary: t h)
  case Nil
  then show ?case by simp
next
  case (Cons op ops)
  have v: "valid_health_op op" using Cons.prems(5) by simp
  obtain h' where h': "health (apply_health_op t op) = Num h'" "0 \<le> h'" "h' \<le> M"
    using health_op_range [OF assms(1) Cons.prems(1-4) v] by blast
  have m: "maxHealth (apply_health_op t op) = Num M"
    using Cons.prems(1) by (simp add: health_op_maxHealth)
  have "\<forall>op\<in>set ops. valid_health_op op" using Cons.prems(5) by simp
  then show ?case using Cons.IH [OF m h'] by simp
qed

text \<open>
  C5 (amended). On a tank whose \<open>maxHealth\<close> is a finite number and whose health starts
  within \<open>[0, maxHealth]\<close>, after every sequence of damage, heal and setHealth operations
  whose arguments are numbers (not \<open>NaN\<close>) and whose damage and heal amounts are not
  negative, the health is within \<open>[0, maxHealth]\<close>, and \<open>isDead\<close> is true if and only if
  the health is 0. Every operation is the one of the program, on doubles.
\<close>

theorem health_stays_in_range:
  assumes "is_double M" and "maxHealth t = Num M"
    and "js_le (Num 0) (health t)" and "js_le (health t) (maxHealth t)"
    and "\<forall>op\<in>set ops. valid_health_op op"
  shows "js_le (Num 0) (health (run_health_ops t ops))
       \<and> js_le (health (run_health_ops t ops)) (maxHealth (run_health_ops t ops))
       \<and> (isDead (run_health_ops t ops) \<longleftrightarrow> health (run_health_ops t ops) = Num 0)"
proof -
  obtain h where h: "health t = Num h" "0 \<le> h" "h \<le> M"
    using assms(2,3,4) by (cases "health t") simp_all
  from run_health_ops_range [OF assms(1,2) h assms(5)]
  show ?thesis by (auto simp add: isDead_def)
qed

lemma health_values:
  "to_double 70 = Num 70"
  "to_double 570 = Num 570"
  "to_double 20 = Num 20"
  "to_double 110 = Num 110"
  "to_double (- 50) = Num (- 50)"
proof -
  show "to_double 70 = Num 70"
    by (subst to_double_eval [where e = 6])
       (simp_all add: power_int_def power_divide round_even_def Let_def)
  show "to_double 570 = Num 570"
    by (subst to_double_eval [where e = 9])
       (simp_all add: power_int_def power_divide round_even_def Let_def)
  show "to_double 20 = Num 20"
    by (subst to_double_eval [where e = 4])
       (simp_all add: power_int_def power_divide round_even_def Let_def)
  show "to_double 110 = Num 110"
    by (subst to_double_eval [where e = 6])
       (simp_all add: power_int_def power_divide round_even_def Let_def)
  show "to_double (- 50) = Num (- 50)"
    by (subst to_double_eval [where e = 5])
       (simp_all add: power_int_def power_divide round_even_def Let_def)
qed

text \<open>A new tank: damaged and healed to the full, then set below 0, healed, and killed by
  an infinite damage.\<close>

theorem health_stays_in_range_witness:
  "is_double 100
   \<and> maxHealth (new_tank ''t1'' 1 2 (vec 0 0 0) (vec 0 0 0)) = Num 100
   \<and> js_le (Num 0) (health (new_tank ''t1'' 1 2 (vec 0 0 0) (vec 0 0 0)))
   \<and> js_le (health (new_tank ''t1'' 1 2 (vec 0 0 0) (vec 0 0 0)))
       (maxHealth (new_tank ''t1'' 1 2 (vec 0 0 0) (vec 0 0 0)))
   \<and> list_all valid_health_op
       [Damage (Num 30), Heal (Num 500), SetHealth (Num (- 7)), Heal (Num 20), Damage PosInf]
   \<and> health (run_health_ops (new_tank ''t1'' 1 2 (vec 0 0 0) (vec 0 0 0))
        [Damage (Num 30), Heal (Num 500)]) = Num 100
   \<and> \<not> isDead (run_health_ops (new_tank ''t1'' 1 2 (vec 0 0 0) (vec 0 0 0))
        [Damage (Num 30), Heal (Num 500)])
   \<and> health (run_health_ops (new_tank ''t1'' 1 2 (vec 0 0 0) (vec 0 0 0))
        [Damage (Num 30), Heal (Num 500), SetHealth (Num (- 7)), Heal (Num 20), Damage PosInf])
       = Num 0
   \<and> isDead (run_health_ops (new_tank ''t1'' 1 2 (vec 0 0 0) (vec 0 0 0))
        [Damage (Num 30), Heal (Num 500), SetHealth (Num (- 7)), Heal (Num 20), Damage PosInf])"
proof -
  let ?t = "new_tank ''t1'' 1 2 (vec 0 0 0) (vec 0 0 0)"
  let ?a = "[Damage (Num 30), Heal (Num 500)]"
  let ?b = "[Damage (Num 30), Heal (Num 500), SetHealth (Num (- 7)), Heal (Num 20), Damage PosInf]"
  have d: "is_double 100" by (rule is_double_examples(2))
  have h: "maxHealth ?t = Num 100" "js_le (Num 0) (health ?t)" "js_le (health ?t) (maxHealth ?t)"
    by (simp_all add: new_tank_def)
  have va: "\<forall>op\<in>set ?a. valid_health_op op" and vb: "\<forall>op\<in>set ?b. valid_health_op op"
    by simp_all
  have ra: "health (run_health_ops ?t ?a) = Num 100"
    by (simp add: new_tank_def run_health_ops_def damage_def heal_def js_max_def js_min_def
          health_values)
  have rb: "health (run_health_ops ?t ?b) = Num 0"
    by (simp add: new_tank_def run_health_ops_def damage_def heal_def setHealth_def
          js_max_def js_min_def health_values)
  from health_stays_in_range [OF d h va] ra have "\<not> isDead (run_health_ops ?t ?a)" by simp
  moreover from health_stays_in_range [OF d h vb] rb have "isDead (run_health_ops ?t ?b)" by simp
  ultimately show ?thesis using d h ra rb by simp
qed

text \<open>
  C5 as stated fails: \<open>damage\<close> clamps only from below and \<open>heal\<close> only from above, so a
  negative damage lifts a full health above \<open>maxHealth\<close>, and a negative heal takes it
  below 0, where \<open>isDead\<close> holds although the health is not 0. \<open>setHealth\<close>, which the
  game calls with the health field of a network message as it arrives, passes \<open>NaN\<close>
  through both clamps: the health is then \<open>NaN\<close>, neither at least 0 nor at most
  \<open>maxHealth\<close>.
\<close>

theorem health_range_counterexample:
  "health (run_health_ops (new_tank ''t1'' 1 2 (vec 0 0 0) (vec 0 0 0)) [Damage (Num (- 10))])
     = Num 110
   \<and> maxHealth (run_health_ops (new_tank ''t1'' 1 2 (vec 0 0 0) (vec 0 0 0)) [Damage (Num (- 10))])
     = Num 100
   \<and> \<not> js_le (health (run_health_ops (new_tank ''t1'' 1 2 (vec 0 0 0) (vec 0 0 0))
                      [Damage (Num (- 10))]))
         (maxHealth (run_health_ops (new_tank ''t1'' 1 2 (vec 0 0 0) (vec 0 0 0))
                      [Damage (Num (- 10))]))
   \<and> health (run_health_ops (new_tank ''t1'' 1 2 (vec 0 0 0) (vec 0 0 0)) [Heal (Num (- 150))])
     = Num (- 50)
   \<and> \<not> js_le (Num 0)
         (health (run_health_ops (new_tank ''t1'' 1 2 (vec 0 0 0) (vec 0 0 0))
                    [Heal (Num (- 150))]))
   \<and> isDead (run_health_ops (new_tank ''t1'' 1 2 (vec 0 0 0) (vec 0 0 0)) [Heal (Num (- 150))])
   \<and> health (run_health_ops (new_tank ''t1'' 1 2 (vec 0 0 0) (vec 0 0 0)) [SetHealth NaN]) = NaN
   \<and> \<not> js_le (Num 0)
         (health (run_health_ops (new_tank ''t1'' 1 2 (vec 0 0 0) (vec 0 0 0)) [SetHealth NaN]))
   \<and> \<not> js_le (health (run_health_ops (new_tank ''t1'' 1 2 (vec 0 0 0) (vec 0 0 0)) [SetHealth NaN]))
         (maxHealth (run_health_ops (new_tank ''t1'' 1 2 (vec 0 0 0) (vec 0 0 0)) [SetHealth NaN]))"
  by (simp add: new_tank_def run_health_ops_def damage_def heal_def setHealth_def isDead_def
        js_max_def js_min_def health_values)

subsection \<open>Reload\<close>

lemma sync_body_weapon [simp]:
  "isReloading (sync_body t) = isReloading t"
  "reloadTimer (sync_body t) = reloadTimer t"
  "reloadTime (sync_body t) = reloadTime t"
  "ammo (sync_body t) = ammo t"
  "maxAmmo (sync_body t) = maxAmmo t"
  by (simp_all add: sync_body_def Let_def split: option.split)

lemma update_idle:
  "\<not> isReloading t \<Longrightarrow>
   \<not> isReloading (Tank_update d t) \<and> reloadTimer (Tank_update d t) = reloadTimer t
   \<and> ammo (Tank_update d t) = ammo t \<and> reloadTime (Tank_update d t) = reloadTime t"
  by (simp add: Tank_update_def advance_reload_def)

lemma update_pending:
  "isReloading t \<Longrightarrow> \<not> js_ge (js_add (reloadTimer t) d) (reloadTime t) \<Longrightarrow>
   isReloading (Tank_update d t) \<and> reloadTimer (Tank_update d t) = js_add (reloadTimer t) d
   \<and> ammo (Tank_update d t) = ammo t \<and> reloadTime (Tank_update d t) = reloadTime t"
  by (simp add: Tank_update_def advance_reload_def Let_def)

lemma update_done:
  "isReloading t \<Longrightarrow> js_ge (js_add (reloadTimer t) d) (reloadTime t) \<Longrightarrow>
   \<not> isReloading (Tank_update d t) \<and> reloadTimer (Tank_update d t) = 0
   \<and> ammo (Tank_update d t) = maxAmmo t \<and> reloadTime (Tank_update d t) = reloadTime t"
  by (simp add: Tank_update_def advance_reload_def Let_def)

lemma update_maxAmmo: "maxAmmo (Tank_update d t) = maxAmmo t"
  by (simp add: Tank_update_def advance_reload_def Let_def)

lemma run_updates_maxAmmo: "maxAmmo (run_updates t ds) = maxAmmo t"
  unfolding run_updates_def
  by (induction ds arbitrary: t) (simp_all add: update_maxAmmo)

lemma run_updates_reloaded: "reloaded t \<Longrightarrow> reloaded (run_updates t ds)"
  unfolding run_updates_def
proof (induction ds arbitrary: t)
  case Nil
  then show ?case by simp
next
  case (Cons d ds)
  have "reloaded (Tank_update d t)"
    using Cons.prems update_idle [of t d] by (simp add: reloaded_def update_maxAmmo)
  then show ?case using Cons.IH by simp
qed

text \<open>While no running sum has reached the reload time, the timer holds the running sum.\<close>

lemma run_updates_waiting:
  assumes "isReloading t"
    and "\<forall>k. 0 < k \<and> k \<le> length ds \<longrightarrow>
           \<not> js_ge (foldl js_add (reloadTimer t) (take k ds)) (reloadTime t)"
  shows "isReloading (run_updates t ds) \<and> ammo (run_updates t ds) = ammo t
         \<and> reloadTimer (run_updates t ds) = foldl js_add (reloadTimer t) ds"
  using assms
proof (induction ds arbitrary: t)
  case Nil
  then show ?case by (simp add: run_updates_def)
next
  case (Cons d ds)
  have "\<not> js_ge (foldl js_add (reloadTimer t) (take 1 (d # ds))) (reloadTime t)"
    using Cons.prems(2) by (metis length_Cons less_one less_eq_Suc_le zero_less_Suc One_nat_def)
  then have lt: "\<not> js_ge (js_add (reloadTimer t) d) (reloadTime t)" by simp
  note u = update_pending [OF Cons.prems(1) lt]
  have "\<not> js_ge (foldl js_add (reloadTimer (Tank_update d t)) (take k ds))
            (reloadTime (Tank_update d t))"
    if "0 < k \<and> k \<le> length ds" for k
  proof -
    have "\<not> js_ge (foldl js_add (reloadTimer t) (take (Suc k) (d # ds))) (reloadTime t)"
      using Cons.prems(2) that by (metis Suc_le_mono length_Cons zero_less_Suc)
    then show ?thesis using u by simp
  qed
  then have "isReloading (run_updates (Tank_update d t) ds)
      \<and> ammo (run_updates (Tank_update d t) ds) = ammo (Tank_update d t)
      \<and> reloadTimer (run_updates (Tank_update d t) ds)
          = foldl js_add (reloadTimer (Tank_update d t)) ds"
    using Cons.IH [of "Tank_update d t"] u by blast
  then show ?case using u by (simp add: run_updates_def)
qed

text \<open>Once a running sum has reached the reload time, the reload is over for good.\<close>

lemma run_updates_complete:
  assumes "isReloading t" "0 < k" "k \<le> length ds"
    and "js_ge (foldl js_add (reloadTimer t) (take k ds)) (reloadTime t)"
  shows "\<not> isReloading (run_updates t ds) \<and> reloadTimer (run_updates t ds) = 0
         \<and> ammo (run_updates t ds) = maxAmmo t"
  using assms
proof (induction ds arbitrary: t k)
  case Nil
  then show ?case by simp
next
  case (Cons d ds)
  show ?case
  proof (cases "js_ge (js_add (reloadTimer t) d) (reloadTime t)")
    case True
    note u = update_done [OF Cons.prems(1) True]
    then have "reloaded (Tank_update d t)" by (simp add: reloaded_def update_maxAmmo)
    then have "reloaded (run_updates (Tank_update d t) ds)" by (rule run_updates_reloaded)
    moreover have "maxAmmo (run_updates (Tank_update d t) ds) = maxAmmo t"
      by (simp add: run_updates_maxAmmo update_maxAmmo)
    ultimately show ?thesis by (simp add: run_updates_def reloaded_def)
  next
    case False
    note u = update_pending [OF Cons.prems(1) False]
    obtain j where j: "k = Suc j" using Cons.prems(2) by (cases k) simp_all
    have j0: "0 < j"
    proof (cases j)
      case 0
      then have "take k (d # ds) = [d]" using j by simp
      then show ?thesis using False Cons.prems(4) by simp
    next
      case (Suc i)
      then show ?thesis by simp
    qed
    have jl: "j \<le> length ds" using Cons.prems(3) j by simp
    have "js_ge (foldl js_add (reloadTimer (Tank_update d t)) (take j ds))
            (reloadTime (Tank_update d t))"
      using Cons.prems(4) j u by simp
    then show ?thesis
      using Cons.IH [OF _ j0 jl, of "Tank_update d t"] u
      by (simp add: run_updates_def update_maxAmmo)
  qed
qed

text \<open>
  C6 (amended). A tank that has entered the reloading state (flag set, timer at 0) and is
  then only updated. The timer of the program holds the running sum of the frame deltas,
  every addition rounded to a double. When that running sum is exactly \<open>reloadTime\<close>
  after the last update, and more generally once it is at least \<open>reloadTime\<close> after some
  update, the tank ends with full ammunition, the flag cleared and the timer back at 0.
  As long as the running sum has been below \<open>reloadTime\<close> after every update so far, the
  tank is still reloading with the ammunition it had, and its timer is the running sum.
\<close>

theorem reload_completes:
  assumes "isReloading t" and "reloadTimer t = 0"
  shows "(ds \<noteq> [] \<and> running_sum ds = reloadTime t \<and> reloadTime t \<noteq> NaN \<longrightarrow>
            ammo (run_updates t ds) = maxAmmo t
            \<and> \<not> isReloading (run_updates t ds)
            \<and> reloadTimer (run_updates t ds) = 0)
       \<and> (\<forall>k. 0 < k \<and> k \<le> length ds \<and> js_ge (running_sum (take k ds)) (reloadTime t) \<longrightarrow>
            ammo (run_updates t ds) = maxAmmo t
            \<and> \<not> isReloading (run_updates t ds)
            \<and> reloadTimer (run_updates t ds) = 0)
       \<and> (\<forall>n. (\<forall>k. 0 < k \<and> k \<le> n \<longrightarrow> \<not> js_ge (running_sum (take k ds)) (reloadTime t)) \<longrightarrow>
            isReloading (run_updates t (take n ds))
            \<and> ammo (run_updates t (take n ds)) = ammo t
            \<and> reloadTimer (run_updates t (take n ds)) = running_sum (take n ds))"
proof -
  have z: "reloadTimer t = Num 0" using assms(2) by (simp add: zero_jsnum_def)
  have fin: "ammo (run_updates t ds) = maxAmmo t \<and> \<not> isReloading (run_updates t ds)
         \<and> reloadTimer (run_updates t ds) = 0"
    if "0 < k \<and> k \<le> length ds \<and> js_ge (running_sum (take k ds)) (reloadTime t)" for k
    using run_updates_complete [OF assms(1), of k ds] that z by (simp add: running_sum_def)
  have ex: "ammo (run_updates t ds) = maxAmmo t \<and> \<not> isReloading (run_updates t ds)
         \<and> reloadTimer (run_updates t ds) = 0"
    if "ds \<noteq> [] \<and> running_sum ds = reloadTime t \<and> reloadTime t \<noteq> NaN"
  proof -
    have "js_ge (running_sum (take (length ds) ds)) (reloadTime t)"
      using that by (simp add: js_ge_def js_le_refl)
    moreover have "0 < length ds" using that by simp
    ultimately show ?thesis using fin [of "length ds"] by simp
  qed
  have gen: "isReloading (run_updates t (take n ds)) \<and> ammo (run_updates t (take n ds)) = ammo t
         \<and> reloadTimer (run_updates t (take n ds)) = running_sum (take n ds)"
    if a: "\<forall>k. 0 < k \<and> k \<le> n \<longrightarrow> \<not> js_ge (running_sum (take k ds)) (reloadTime t)" for n
  proof -
    have "\<not> js_ge (foldl js_add (reloadTimer t) (take k (take n ds))) (reloadTime t)"
      if "0 < k \<and> k \<le> length (take n ds)" for k
    proof -
      have "k \<le> n" using that by simp
      then have "take k (take n ds) = take k ds" by (simp add: min_absorb1)
      then show ?thesis using \<open>k \<le> n\<close> that z a by (simp add: running_sum_def)
    qed
    then show ?thesis
      using run_updates_waiting [OF assms(1), of "take n ds"] z by (simp add: running_sum_def)
  qed
  show ?thesis using fin ex gen by blast
qed

lemma reload_sums:
  "to_double (0 + 1/2) = Num (1/2)"
  "to_double (1/2 + 1/2) = Num 1"
  "to_double (1 + 3/4) = Num (7/4)"
  "to_double (7/4 + 1/4) = Num 2"
proof -
  show "to_double (0 + 1/2) = Num (1/2)"
    by (subst to_double_eval [where e = "- 1"])
       (simp_all add: power_int_def power_divide round_even_def Let_def)
  show "to_double (1/2 + 1/2) = Num 1"
    by (subst to_double_eval [where e = 0])
       (simp_all add: power_int_def power_divide round_even_def Let_def)
  show "to_double (1 + 3/4) = Num (7/4)"
    by (subst to_double_eval [where e = 0])
       (simp_all add: power_int_def power_divide round_even_def Let_def)
  show "to_double (7/4 + 1/4) = Num 2"
    by (subst to_double_eval [where e = 1])
       (simp_all add: power_int_def power_divide round_even_def Let_def)
qed

text \<open>Two seconds of reloading in four frames: empty after three, full after four.\<close>

theorem reload_completes_witness:
  "isReloading (startReload ((new_tank ''t1'' 1 2 (vec 0 0 0) (vec 0 0 0))\<lparr>ammo := 0\<rparr>))
   \<and> reloadTimer (startReload ((new_tank ''t1'' 1 2 (vec 0 0 0) (vec 0 0 0))\<lparr>ammo := 0\<rparr>)) = 0
   \<and> running_sum [Num (1/2), Num (1/2), Num (3/4), Num (1/4)]
       = reloadTime (startReload ((new_tank ''t1'' 1 2 (vec 0 0 0) (vec 0 0 0))\<lparr>ammo := 0\<rparr>))
   \<and> ammo (run_updates (startReload ((new_tank ''t1'' 1 2 (vec 0 0 0) (vec 0 0 0))\<lparr>ammo := 0\<rparr>))
        [Num (1/2), Num (1/2), Num (3/4), Num (1/4)]) = 5
   \<and> \<not> isReloading (run_updates (startReload ((new_tank ''t1'' 1 2 (vec 0 0 0) (vec 0 0 0))\<lparr>ammo := 0\<rparr>))
        [Num (1/2), Num (1/2), Num (3/4), Num (1/4)])
   \<and> reloadTimer (run_updates (startReload ((new_tank ''t1'' 1 2 (vec 0 0 0) (vec 0 0 0))\<lparr>ammo := 0\<rparr>))
        [Num (1/2), Num (1/2), Num (3/4), Num (1/4)]) = 0
   \<and> isReloading (run_updates (startReload ((new_tank ''t1'' 1 2 (vec 0 0 0) (vec 0 0 0))\<lparr>ammo := 0\<rparr>))
        (take 3 [Num (1/2), Num (1/2), Num (3/4), Num (1/4)]))
   \<and> ammo (run_updates (startReload ((new_tank ''t1'' 1 2 (vec 0 0 0) (vec 0 0 0))\<lparr>ammo := 0\<rparr>))
        (take 3 [Num (1/2), Num (1/2), Num (3/4), Num (1/4)])) = 0
   \<and> reloadTimer (run_updates (startReload ((new_tank ''t1'' 1 2 (vec 0 0 0) (vec 0 0 0))\<lparr>ammo := 0\<rparr>))
        (take 3 [Num (1/2), Num (1/2), Num (3/4), Num (1/4)])) = Num (7/4)"
proof -
  let ?t = "startReload ((new_tank ''t1'' 1 2 (vec 0 0 0) (vec 0 0 0))\<lparr>ammo := 0\<rparr>)"
  let ?ds = "[Num (1/2), Num (1/2), Num (3/4), Num (1/4)]"
  have h: "isReloading ?t" "reloadTimer ?t = 0"
    by (simp_all add: startReload_def new_tank_def)
  have a: "ammo ?t = 0" "maxAmmo ?t = 5" "reloadTime ?t = Num 2"
    by (simp_all add: startReload_def new_tank_def)
  have s: "running_sum (take 1 ?ds) = Num (1/2)" "running_sum (take 2 ?ds) = Num 1"
      "running_sum (take 3 ?ds) = Num (7/4)" "running_sum ?ds = Num 2"
    unfolding running_sum_def
    by (simp_all only: take_Suc_Cons take_0 numeral_2_eq_2 numeral_3_eq_3 One_nat_def
          foldl.simps js_add.simps reload_sums)
  have w: "\<forall>k. 0 < k \<and> k \<le> 3 \<longrightarrow> \<not> js_ge (running_sum (take k ?ds)) (reloadTime ?t)"
  proof (intro allI impI)
    fix k :: nat
    assume "0 < k \<and> k \<le> 3"
    then have "k = 1 \<or> k = 2 \<or> k = 3" by arith
    then show "\<not> js_ge (running_sum (take k ?ds)) (reloadTime ?t)"
      using s a(3) by (auto simp add: js_ge_def)
  qed
  note r = reload_completes [OF h, of ?ds]
  have c: "?ds \<noteq> [] \<and> running_sum ?ds = reloadTime ?t \<and> reloadTime ?t \<noteq> NaN"
    using s a(3) by simp
  from r c have f: "ammo (run_updates ?t ?ds) = maxAmmo ?t \<and> \<not> isReloading (run_updates ?t ?ds)
      \<and> reloadTimer (run_updates ?t ?ds) = 0" by blast
  from r w have p: "isReloading (run_updates ?t (take 3 ?ds))
      \<and> ammo (run_updates ?t (take 3 ?ds)) = ammo ?t
      \<and> reloadTimer (run_updates ?t (take 3 ?ds)) = running_sum (take 3 ?ds)" by blast
  show ?thesis using h c f p a s(3) by simp
qed

lemma lost_sums:
  "to_double (0 + 1) = Num 1"
  "to_double (1 + 1 / 2 ^ 53) = Num 1"
  "to_double (1 + (1 - 1 / 2 ^ 52)) = Num (2 - 1 / 2 ^ 52)"
proof -
  show "to_double (0 + 1) = Num 1"
    by (subst to_double_eval [where e = 0])
       (simp_all add: power_int_def power_divide round_even_def Let_def)
  show "to_double (1 + 1 / 2 ^ 53) = Num 1"
    by (subst to_double_eval [where e = 0])
       (simp_all add: power_int_def power_divide round_even_def Let_def)
  show "to_double (1 + (1 - 1 / 2 ^ 52)) = Num (2 - 1 / 2 ^ 52)"
    by (subst to_double_eval [where e = 0])
       (simp_all add: power_int_def power_divide round_even_def Let_def)
qed

lemma lost_doubles:
  "is_double 1" "is_double (1 / 2 ^ 53)" "is_double (1 - 1 / 2 ^ 52)"
proof -
  show "is_double 1"
    unfolding is_double_def
    by (subst to_double_eval [where e = 0])
       (simp_all add: power_int_def power_divide round_even_def Let_def)
  show "is_double (1 / 2 ^ 53)"
    unfolding is_double_def
    by (subst to_double_eval [where e = "- 53"])
       (simp_all add: power_int_def power_divide round_even_def Let_def)
  show "is_double (1 - 1 / 2 ^ 52)"
    unfolding is_double_def
    by (subst to_double_eval [where e = "- 1"])
       (simp_all add: power_int_def power_divide round_even_def Let_def)
qed

text \<open>
  C6 as stated fails when the deltas are added as numbers and not as the program adds
  them. Four deltas that are doubles and add up to exactly 2, the reload time of a new
  tank: the timer of the program loses the two small ones to rounding and stands just
  below 2 after the last update; the tank is still reloading and empty.
\<close>

theorem reload_completes_counterexample:
  "sum_list [1, 1 / 2 ^ 53, 1 / 2 ^ 53, 1 - 1 / 2 ^ 52 :: real] = 2
   \<and> list_all is_double [1, 1 / 2 ^ 53, 1 / 2 ^ 53, 1 - 1 / 2 ^ 52]
   \<and> reloadTime (startReload ((new_tank ''t1'' 1 2 (vec 0 0 0) (vec 0 0 0))\<lparr>ammo := 0\<rparr>)) = Num 2
   \<and> isReloading (run_updates (startReload ((new_tank ''t1'' 1 2 (vec 0 0 0) (vec 0 0 0))\<lparr>ammo := 0\<rparr>))
        [Num 1, Num (1 / 2 ^ 53), Num (1 / 2 ^ 53), Num (1 - 1 / 2 ^ 52)])
   \<and> ammo (run_updates (startReload ((new_tank ''t1'' 1 2 (vec 0 0 0) (vec 0 0 0))\<lparr>ammo := 0\<rparr>))
        [Num 1, Num (1 / 2 ^ 53), Num (1 / 2 ^ 53), Num (1 - 1 / 2 ^ 52)]) = 0
   \<and> reloadTimer (run_updates (startReload ((new_tank ''t1'' 1 2 (vec 0 0 0) (vec 0 0 0))\<lparr>ammo := 0\<rparr>))
        [Num 1, Num (1 / 2 ^ 53), Num (1 / 2 ^ 53), Num (1 - 1 / 2 ^ 52)]) = Num (2 - 1 / 2 ^ 52)"
proof -
  let ?t = "startReload ((new_tank ''t1'' 1 2 (vec 0 0 0) (vec 0 0 0))\<lparr>ammo := 0\<rparr>)"
  let ?ds = "[Num 1, Num (1 / 2 ^ 53), Num (1 / 2 ^ 53), Num (1 - 1 / 2 ^ 52)]"
  have h: "isReloading ?t" "reloadTimer ?t = Num 0" "ammo ?t = 0" "reloadTime ?t = Num 2"
    by (simp_all add: startReload_def new_tank_def zero_jsnum_def)
  have p: "take 1 ?ds = [Num 1]" "take 2 ?ds = [Num 1, Num (1 / 2 ^ 53)]"
      "take 3 ?ds = [Num 1, Num (1 / 2 ^ 53), Num (1 / 2 ^ 53)]" "take 4 ?ds = ?ds"
    by simp_all
  have s: "foldl js_add (Num 0) (take 1 ?ds) = Num 1" "foldl js_add (Num 0) (take 2 ?ds) = Num 1"
      "foldl js_add (Num 0) (take 3 ?ds) = Num 1"
      "foldl js_add (Num 0) (take 4 ?ds) = Num (2 - 1 / 2 ^ 52)"
    unfolding p by (simp_all only: foldl.simps js_add.simps lost_sums)
  have w: "\<forall>k. 0 < k \<and> k \<le> length ?ds \<longrightarrow>
      \<not> js_ge (foldl js_add (reloadTimer ?t) (take k ?ds)) (reloadTime ?t)"
  proof (intro allI impI)
    fix k :: nat
    assume "0 < k \<and> k \<le> length ?ds"
    then have "k = 1 \<or> k = 2 \<or> k = 3 \<or> k = 4" by auto
    then show "\<not> js_ge (foldl js_add (reloadTimer ?t) (take k ?ds)) (reloadTime ?t)"
      unfolding h using s by (auto simp add: js_ge_def)
  qed
  have d: "list_all is_double [1, 1 / 2 ^ 53, 1 / 2 ^ 53, 1 - 1 / 2 ^ 52]"
    using lost_doubles by simp
  have e: "foldl js_add (Num 0) ?ds = Num (2 - 1 / 2 ^ 52)" using s(4) p(4) by simp
  have "sum_list [1, 1 / 2 ^ 53, 1 / 2 ^ 53, 1 - 1 / 2 ^ 52 :: real] = 2" by simp
  with run_updates_waiting [OF h(1) w] h e d show ?thesis by simp
qed

section \<open>Properties of the projectile\<close>









section \<open>Properties of the collision classifier\<close>

lemma block_sym:
  assumes "r1 \<noteq> r2"
  shows "(if tagged r1 r2 b a then [f (pick r1 b a) (pick r2 b a)] else [])
       = (if tagged r1 r2 a b then [f (pick r1 a b) (pick r2 a b)] else [])"
  using assms by (auto simp add: tagged_def pick_def)

lemma beginContact_sym: "beginContact (Some b) (Some a) = beginContact (Some a) (Some b)"
proof -
  have b1: "(if tagged ''projectile'' ''tank'' b a
       then [ProjectileHitTank (idOf (pick ''projectile'' b a)) (idOf (pick ''tank'' b a))
               (ownerIdOf (pick ''projectile'' b a)) (damageOf (pick ''projectile'' b a))
               (position (pick ''projectile'' b a))] else [])
     = (if tagged ''projectile'' ''tank'' a b
       then [ProjectileHitTank (idOf (pick ''projectile'' a b)) (idOf (pick ''tank'' a b))
               (ownerIdOf (pick ''projectile'' a b)) (damageOf (pick ''projectile'' a b))
               (position (pick ''projectile'' a b))] else [])"
    using block_sym [where ?r1.0 = "''projectile''" and ?r2.0 = "''tank''" and b = b and a = a
        and f = "\<lambda>p t. ProjectileHitTank (idOf p) (idOf t) (ownerIdOf p) (damageOf p) (position p)"]
    by simp
  have b2: "(if tagged ''projectile'' ''obstacle'' b a
       then [ProjectileHitObstacle (idOf (pick ''projectile'' b a)) (idOf (pick ''obstacle'' b a))
               (position (pick ''projectile'' b a))] else [])
     = (if tagged ''projectile'' ''obstacle'' a b
       then [ProjectileHitObstacle (idOf (pick ''projectile'' a b)) (idOf (pick ''obstacle'' a b))
               (position (pick ''projectile'' a b))] else [])"
    using block_sym [where ?r1.0 = "''projectile''" and ?r2.0 = "''obstacle''" and b = b and a = a
        and f = "\<lambda>p t. ProjectileHitObstacle (idOf p) (idOf t) (position p)"]
    by simp
  have b3: "(if tagged ''projectile'' ''ground'' b a
       then [ProjectileHitGround (idOf (pick ''projectile'' b a))
               (position (pick ''projectile'' b a))] else [])
     = (if tagged ''projectile'' ''ground'' a b
       then [ProjectileHitGround (idOf (pick ''projectile'' a b))
               (position (pick ''projectile'' a b))] else [])"
    using block_sym [where ?r1.0 = "''projectile''" and ?r2.0 = "''ground''" and b = b and a = a
        and f = "\<lambda>p t. ProjectileHitGround (idOf p) (position p)"]
    by simp
  have b4: "(if tagged ''tank'' ''obstacle'' b a
       then [TankHitObstacle (idOf (pick ''tank'' b a)) (idOf (pick ''obstacle'' b a))] else [])
     = (if tagged ''tank'' ''obstacle'' a b
       then [TankHitObstacle (idOf (pick ''tank'' a b)) (idOf (pick ''obstacle'' a b))] else [])"
    using block_sym [where ?r1.0 = "''tank''" and ?r2.0 = "''obstacle''" and b = b and a = a
        and f = "\<lambda>p t. TankHitObstacle (idOf p) (idOf t)"]
    by simp
  have b5: "(if tagged ''tank'' ''ground'' b a
       then [TankHitGround (idOf (pick ''tank'' b a)) (position (pick ''tank'' b a))] else [])
     = (if tagged ''tank'' ''ground'' a b
       then [TankHitGround (idOf (pick ''tank'' a b)) (position (pick ''tank'' a b))] else [])"
    using block_sym [where ?r1.0 = "''tank''" and ?r2.0 = "''ground''" and b = b and a = a
        and f = "\<lambda>p t. TankHitGround (idOf p) (position p)"]
    by simp
  show ?thesis
    unfolding beginContact_def by (simp only: prod.case option.case b1 b2 b3 b4 b5)
qed

lemma tagged_roles:
  "tagged r1 r2 a b \<Longrightarrow> known_role (Some r1) \<Longrightarrow> known_role (Some r2) \<Longrightarrow>
   known_role (typeOf a) \<and> known_role (typeOf b)"
  by (auto simp add: tagged_def)

lemma tagged_excl:
  "tagged r1 r2 a b \<Longrightarrow> tagged s1 s2 a b \<Longrightarrow> (r1 = s1 \<and> r2 = s2) \<or> (r1 = s2 \<and> r2 = s1)"
  by (auto simp add: tagged_def)

lemma kr: "known_role (Some ''projectile'')" "known_role (Some ''tank'')"
  "known_role (Some ''ground'')" "known_role (Some ''obstacle'')"
  by (simp_all add: known_role_def)

lemma beginContact_untagged:
  assumes "\<not> known_role (typeOf a) \<or> \<not> known_role (typeOf b)"
  shows "beginContact (Some a) (Some b) = []"
proof -
  have n: "\<not> tagged r1 r2 a b" if "known_role (Some r1)" "known_role (Some r2)" for r1 r2
    using assms tagged_roles [of r1 r2 a b] that by blast
  have "\<not> tagged ''projectile'' ''tank'' a b" "\<not> tagged ''projectile'' ''obstacle'' a b"
    "\<not> tagged ''projectile'' ''ground'' a b" "\<not> tagged ''tank'' ''obstacle'' a b"
    "\<not> tagged ''tank'' ''ground'' a b"
    by (rule n, rule kr, rule kr)+
  then show ?thesis by (simp add: beginContact_def)
qed

lemma known_pairs_iff:
  "(r1, r2, ev) \<in> set known_pairs \<longleftrightarrow>
     (r1 = ''projectile'' \<and> r2 = ''tank'' \<and> ev = ''projectileHitTank'')
   \<or> (r1 = ''projectile'' \<and> r2 = ''obstacle'' \<and> ev = ''projectileHitObstacle'')
   \<or> (r1 = ''projectile'' \<and> r2 = ''ground'' \<and> ev = ''projectileHitGround'')
   \<or> (r1 = ''tank'' \<and> r2 = ''obstacle'' \<and> ev = ''tankHitObstacle'')
   \<or> (r1 = ''tank'' \<and> r2 = ''ground'' \<and> ev = ''tankHitGround'')"
  unfolding known_pairs_def
  by (simp only: list.set insert_iff empty_iff prod.inject simp_thms)

lemma beginContact_one:
  assumes "(r1, r2, ev) \<in> set known_pairs" "tagged r1 r2 a b"
  shows "\<exists>e. beginContact (Some a) (Some b) = [e] \<and> event_name e = ev"
proof -
  have x: "\<not> tagged s1 s2 a b" if "\<not> ((r1 = s1 \<and> r2 = s2) \<or> (r1 = s2 \<and> r2 = s1))" for s1 s2
    using tagged_excl [OF assms(2), of s1 s2] that by blast
  from assms(1) have
     "(r1 = ''projectile'' \<and> r2 = ''tank'' \<and> ev = ''projectileHitTank'')
   \<or> (r1 = ''projectile'' \<and> r2 = ''obstacle'' \<and> ev = ''projectileHitObstacle'')
   \<or> (r1 = ''projectile'' \<and> r2 = ''ground'' \<and> ev = ''projectileHitGround'')
   \<or> (r1 = ''tank'' \<and> r2 = ''obstacle'' \<and> ev = ''tankHitObstacle'')
   \<or> (r1 = ''tank'' \<and> r2 = ''ground'' \<and> ev = ''tankHitGround'')"
    by (simp only: known_pairs_iff)
  then show ?thesis
  proof (elim disjE conjE, goal_cases)
    case 1
    have "\<not> tagged ''projectile'' ''obstacle'' a b" by (rule x) (simp add: 1)
    moreover have "\<not> tagged ''projectile'' ''ground'' a b" by (rule x) (simp add: 1)
    moreover have "\<not> tagged ''tank'' ''obstacle'' a b" by (rule x) (simp add: 1)
    moreover have "\<not> tagged ''tank'' ''ground'' a b" by (rule x) (simp add: 1)
    moreover have "tagged ''projectile'' ''tank'' a b" using assms(2) by (simp only: 1)
    ultimately have e: "beginContact (Some a) (Some b)
        = [ProjectileHitTank (idOf (pick ''projectile'' a b)) (idOf (pick ''tank'' a b))
             (ownerIdOf (pick ''projectile'' a b)) (damageOf (pick ''projectile'' a b))
             (position (pick ''projectile'' a b))]"
      unfolding beginContact_def
      by (simp only: prod.case option.case if_True if_False append_Nil append_Nil2)
    show ?thesis
      by (rule exI [of _ "ProjectileHitTank (idOf (pick ''projectile'' a b)) (idOf (pick ''tank'' a b))
             (ownerIdOf (pick ''projectile'' a b)) (damageOf (pick ''projectile'' a b))
             (position (pick ''projectile'' a b))"])
        (simp only: e 1 event_name.simps simp_thms)
  next
    case 2
    have "\<not> tagged ''projectile'' ''tank'' a b" by (rule x) (simp add: 2)
    moreover have "\<not> tagged ''projectile'' ''ground'' a b" by (rule x) (simp add: 2)
    moreover have "\<not> tagged ''tank'' ''obstacle'' a b" by (rule x) (simp add: 2)
    moreover have "\<not> tagged ''tank'' ''ground'' a b" by (rule x) (simp add: 2)
    moreover have "tagged ''projectile'' ''obstacle'' a b" using assms(2) by (simp only: 2)
    ultimately have e: "beginContact (Some a) (Some b)
        = [ProjectileHitObstacle (idOf (pick ''projectile'' a b)) (idOf (pick ''obstacle'' a b))
             (position (pick ''projectile'' a b))]"
      unfolding beginContact_def
      by (simp only: prod.case option.case if_True if_False append_Nil append_Nil2)
    show ?thesis
      by (rule exI [of _ "ProjectileHitObstacle (idOf (pick ''projectile'' a b)) (idOf (pick ''obstacle'' a b))
             (position (pick ''projectile'' a b))"])
        (simp only: e 2 event_name.simps simp_thms)
  next
    case 3
    have "\<not> tagged ''projectile'' ''tank'' a b" by (rule x) (simp add: 3)
    moreover have "\<not> tagged ''projectile'' ''obstacle'' a b" by (rule x) (simp add: 3)
    moreover have "\<not> tagged ''tank'' ''obstacle'' a b" by (rule x) (simp add: 3)
    moreover have "\<not> tagged ''tank'' ''ground'' a b" by (rule x) (simp add: 3)
    moreover have "tagged ''projectile'' ''ground'' a b" using assms(2) by (simp only: 3)
    ultimately have e: "beginContact (Some a) (Some b)
        = [ProjectileHitGround (idOf (pick ''projectile'' a b))
             (position (pick ''projectile'' a b))]"
      unfolding beginContact_def
      by (simp only: prod.case option.case if_True if_False append_Nil append_Nil2)
    show ?thesis
      by (rule exI [of _ "ProjectileHitGround (idOf (pick ''projectile'' a b))
             (position (pick ''projectile'' a b))"])
        (simp only: e 3 event_name.simps simp_thms)
  next
    case 4
    have "\<not> tagged ''projectile'' ''tank'' a b" by (rule x) (simp add: 4)
    moreover have "\<not> tagged ''projectile'' ''obstacle'' a b" by (rule x) (simp add: 4)
    moreover have "\<not> tagged ''projectile'' ''ground'' a b" by (rule x) (simp add: 4)
    moreover have "\<not> tagged ''tank'' ''ground'' a b" by (rule x) (simp add: 4)
    moreover have "tagged ''tank'' ''obstacle'' a b" using assms(2) by (simp only: 4)
    ultimately have e: "beginContact (Some a) (Some b)
        = [TankHitObstacle (idOf (pick ''tank'' a b)) (idOf (pick ''obstacle'' a b))]"
      unfolding beginContact_def
      by (simp only: prod.case option.case if_True if_False append_Nil append_Nil2)
    show ?thesis
      by (rule exI [of _ "TankHitObstacle (idOf (pick ''tank'' a b)) (idOf (pick ''obstacle'' a b))"])
        (simp only: e 4 event_name.simps simp_thms)
  next
    case 5
    have "\<not> tagged ''projectile'' ''tank'' a b" by (rule x) (simp add: 5)
    moreover have "\<not> tagged ''projectile'' ''obstacle'' a b" by (rule x) (simp add: 5)
    moreover have "\<not> tagged ''projectile'' ''ground'' a b" by (rule x) (simp add: 5)
    moreover have "\<not> tagged ''tank'' ''obstacle'' a b" by (rule x) (simp add: 5)
    moreover have "tagged ''tank'' ''ground'' a b" using assms(2) by (simp only: 5)
    ultimately have e: "beginContact (Some a) (Some b)
        = [TankHitGround (idOf (pick ''tank'' a b)) (position (pick ''tank'' a b))]"
      unfolding beginContact_def
      by (simp only: prod.case option.case if_True if_False append_Nil append_Nil2)
    show ?thesis
      by (rule exI [of _ "TankHitGround (idOf (pick ''tank'' a b)) (position (pick ''tank'' a b))"])
        (simp only: e 5 event_name.simps simp_thms)
  qed
qed

lemma beginContact_missing: "beginContact None y = [] \<and> beginContact x None = []"
  by (simp add: beginContact_def split: option.split)

text \<open>
  C8. When the tags of two contacting bodies form one of the five known pairs, in either
  order, the listener emits exactly one event, and it is the event named for that pair.
  The events emitted for \<open>(A, B)\<close> and for \<open>(B, A)\<close> are the same, whatever the tags. When
  a body carries no tag or a tag that is not one of the four roles, or when a body is
  missing, nothing is emitted (and nothing fails: the listener is total).
\<close>

theorem classifier_symmetric:
  "((r1, r2, ev) \<in> set known_pairs \<and> tagged r1 r2 a b \<longrightarrow>
      (\<exists>e. beginContact (Some a) (Some b) = [e] \<and> event_name e = ev))
   \<and> beginContact (Some b) (Some a) = beginContact (Some a) (Some b)
   \<and> (\<not> known_role (typeOf a) \<or> \<not> known_role (typeOf b) \<longrightarrow>
        beginContact (Some a) (Some b) = [])
   \<and> beginContact None y = [] \<and> beginContact x None = []"
proof (intro conjI impI)
  assume "(r1, r2, ev) \<in> set known_pairs \<and> tagged r1 r2 a b"
  then show "\<exists>e. beginContact (Some a) (Some b) = [e] \<and> event_name e = ev"
    using beginContact_one [of r1 r2 ev a b] by (elim conjE)
next
  show "beginContact (Some b) (Some a) = beginContact (Some a) (Some b)"
    by (rule beginContact_sym)
next
  assume "\<not> known_role (typeOf a) \<or> \<not> known_role (typeOf b)"
  then show "beginContact (Some a) (Some b) = []" by (rule beginContact_untagged)
next
  show "beginContact None y = []" using beginContact_missing [of y x] by (elim conjE)
next
  show "beginContact x None = []" using beginContact_missing [of y x] by (elim conjE)
qed

text \<open>A tank and a projectile in both orders, and a tank against a body without tag.\<close>

theorem classifier_symmetric_witness:
  "beginContact (Some (Tank_createPhysicsBody 2 ''t1'' (vec 0 0 0) (vec 0 0 0)))
       (Some (Projectile_createPhysicsBody 4 ''p1'' ''me'' 20 (1/5) (vec 1 2 3) (vec 0 0 1) 50))
     = [ProjectileHitTank (Some ''p1'') (Some ''t1'') (Some ''me'') 20 (vec 1 2 3)]
   \<and> beginContact (Some (Projectile_createPhysicsBody 4 ''p1'' ''me'' 20 (1/5) (vec 1 2 3) (vec 0 0 1) 50))
       (Some (Tank_createPhysicsBody 2 ''t1'' (vec 0 0 0) (vec 0 0 0)))
     = [ProjectileHitTank (Some ''p1'') (Some ''t1'') (Some ''me'') 20 (vec 1 2 3)]
   \<and> beginContact (Some (Tank_createPhysicsBody 2 ''t1'' (vec 0 0 0) (vec 0 0 0)))
       (Some ((Tank_createPhysicsBody 3 ''t2'' (vec 0 0 0) (vec 0 0 0))\<lparr>userData := None\<rparr>)) = []"
proof -
  let ?t = "Tank_createPhysicsBody 2 ''t1'' (vec 0 0 0) (vec 0 0 0)"
  let ?p = "Projectile_createPhysicsBody 4 ''p1'' ''me'' 20 (1/5) (vec 1 2 3) (vec 0 0 1) 50"
  let ?u = "(Tank_createPhysicsBody 3 ''t2'' (vec 0 0 0) (vec 0 0 0))\<lparr>userData := None\<rparr>"
  have ty: "typeOf ?t = Some ''tank''" "typeOf ?p = Some ''projectile''" "typeOf ?u = None"
    by (simp_all add: typeOf_def Tank_createPhysicsBody_def Projectile_createPhysicsBody_def)
  have k: "(''projectile'', ''tank'', ''projectileHitTank'') \<in> set known_pairs"
    by (simp add: known_pairs_def)
  have g: "tagged ''projectile'' ''tank'' ?t ?p" by (simp only: tagged_def ty simp_thms)
  have nk: "\<not> known_role (typeOf ?t) \<or> \<not> known_role (typeOf ?u)"
    by (simp add: ty known_role_def)
  note c1 = classifier_symmetric [of "''projectile''" "''tank''" "''projectileHitTank''" ?t ?p None None]
  note c2 = classifier_symmetric [of "''projectile''" "''tank''" "''projectileHitTank''" ?t ?u None None]
  from c1 k g obtain e where e: "beginContact (Some ?t) (Some ?p) = [e]" by blast
  have nt: "\<not> tagged ''projectile'' ''obstacle'' ?t ?p" "\<not> tagged ''projectile'' ''ground'' ?t ?p"
      "\<not> tagged ''tank'' ''obstacle'' ?t ?p" "\<not> tagged ''tank'' ''ground'' ?t ?p"
    by (simp_all add: tagged_def ty)
  have pk: "pick ''projectile'' ?t ?p = ?p" "pick ''tank'' ?t ?p = ?t"
    by (simp_all add: pick_def ty)
  have pl: "idOf ?p = Some ''p1''" "idOf ?t = Some ''t1''" "ownerIdOf ?p = Some ''me''"
      "damageOf ?p = 20" "position ?p = vec 1 2 3"
    by (simp_all add: idOf_def ownerIdOf_def damageOf_def Tank_createPhysicsBody_def
          Projectile_createPhysicsBody_def)
  have v: "beginContact (Some ?t) (Some ?p)
      = [ProjectileHitTank (Some ''p1'') (Some ''t1'') (Some ''me'') 20 (vec 1 2 3)]"
    unfolding beginContact_def
    by (simp only: prod.case option.case g nt if_True if_False append_Nil append_Nil2 pk pl)
  from c1 have s: "beginContact (Some ?p) (Some ?t) = beginContact (Some ?t) (Some ?p)" by blast
  from c2 nk have u: "beginContact (Some ?t) (Some ?u) = []" by blast
  show ?thesis using v s u by simp
qed

section \<open>Properties of world objects\<close>

lemma WorldObject_untagged: "userData (WorldObject_createPhysicsBody ref r1 r2 r3 w) = None"
  by (simp add: WorldObject_createPhysicsBody_def Let_def)

lemma typeOf_untagged: "userData b = None \<Longrightarrow> typeOf b = None"
  by (simp add: typeOf_def)

lemma beginContact_no_tag:
  assumes "typeOf b = None"
  shows "beginContact (Some b) other = []" and "beginContact other (Some b) = []"
proof -
  have nk: "\<not> known_role (typeOf b)" using assms by (simp add: known_role_def)
  show "beginContact (Some b) other = []"
  proof (cases other)
    case None
    then show ?thesis using beginContact_missing [of "Some b" "Some b"] by simp
  next
    case (Some a)
    then show ?thesis using beginContact_untagged [of b a] nk by simp
  qed
  show "beginContact other (Some b) = []"
  proof (cases other)
    case None
    then show ?thesis using beginContact_missing [of "Some b" "Some b"] by simp
  next
    case (Some a)
    then show ?thesis using beginContact_untagged [of a b] nk by simp
  qed
qed

text \<open>
  C10. The body that \<open>WorldObject.createPhysicsBody\<close> makes carries no \<open>userData\<close>,
  whatever the type of the object. A contact between such a body and anything else, in
  either order, therefore emits no event at all; in particular neither
  \<open>projectileHitObstacle\<close> nor \<open>tankHitObstacle\<close>.
\<close>

theorem world_object_no_obstacle_event:
  "userData (WorldObject_createPhysicsBody ref r1 r2 r3 w) = None
   \<and> beginContact (Some (WorldObject_createPhysicsBody ref r1 r2 r3 w)) other = []
   \<and> beginContact other (Some (WorldObject_createPhysicsBody ref r1 r2 r3 w)) = []
   \<and> ProjectileHitObstacle pid oid pos
        \<notin> set (beginContact (Some (WorldObject_createPhysicsBody ref r1 r2 r3 w)) other)
          \<union> set (beginContact other (Some (WorldObject_createPhysicsBody ref r1 r2 r3 w)))
   \<and> TankHitObstacle tid oid
        \<notin> set (beginContact (Some (WorldObject_createPhysicsBody ref r1 r2 r3 w)) other)
          \<union> set (beginContact other (Some (WorldObject_createPhysicsBody ref r1 r2 r3 w)))"
proof -
  let ?b = "WorldObject_createPhysicsBody ref r1 r2 r3 w"
  have u: "userData ?b = None" by (rule WorldObject_untagged)
  then have t: "typeOf ?b = None" by (rule typeOf_untagged)
  note n = beginContact_no_tag [OF t, of other]
  show ?thesis using u n by simp
qed

text \<open>A projectile hitting a rock, and a building hit by a tank: no event.\<close>

theorem world_object_no_obstacle_event_witness:
  "beginContact
     (Some (Projectile_createPhysicsBody 4 ''p1'' ''me'' 20 (1/5) (vec 1 2 3) (vec 0 0 1) 50))
     (Some (WorldObject_createPhysicsBody 9 (1/2) (1/2) (1/2)
        \<lparr>woType = ''rock'', woPosition = vec 1 2 3, woScale = vec 1 1 1,
         woRotation = vec 0 0 0, woId = ''rock_1''\<rparr>)) = []
   \<and> beginContact
     (Some (WorldObject_createPhysicsBody 9 (1/2) (1/2) (1/2)
        \<lparr>woType = ''building'', woPosition = vec 1 2 3, woScale = vec 1 1 1,
         woRotation = vec 0 0 0, woId = ''building_1''\<rparr>))
     (Some (Tank_createPhysicsBody 2 ''t1'' (vec 0 0 0) (vec 0 0 0))) = []"
  using world_object_no_obstacle_event [of 9 "1/2" "1/2" "1/2"
      "\<lparr>woType = ''rock'', woPosition = vec 1 2 3, woScale = vec 1 1 1,
         woRotation = vec 0 0 0, woId = ''rock_1''\<rparr>"
      "Some (Projectile_createPhysicsBody 4 ''p1'' ''me'' 20 (1/5) (vec 1 2 3) (vec 0 0 1) 50)"]
    world_object_no_obstacle_event [of 9 "1/2" "1/2" "1/2"
      "\<lparr>woType = ''building'', woPosition = vec 1 2 3, woScale = vec 1 1 1,
         woRotation = vec 0 0 0, woId = ''building_1''\<rparr>"
      "Some (Tank_createPhysicsBody 2 ''t1'' (vec 0 0 0) (vec 0 0 0))"]
  by blast

section \<open>Properties of the entity manager\<close>

lemma removeEntity_fields:
  "entities (removeEntity e m) = AList.delete (getId e) (entities m)"
  "scene (removeEntity e m)
     = (case getObject3D e of None \<Rightarrow> scene m | Some n \<Rightarrow> scene_remove (nodeRef n) (scene m))"
  "physicsWorld (removeEntity e m)
     = (case getPhysicsBody e of None \<Rightarrow> physicsWorld m
        | Some b \<Rightarrow> world_removeBody (bodyRef b) (physicsWorld m))"
  "disposeCalls (removeEntity e m) = disposeCalls m @ dispose e"
  by (simp_all add: removeEntity_def Let_def split: option.split)

lemma addEntity_fields:
  "entities (addEntity e m) = AList.update (getId e) e (entities m)"
  "scene (addEntity e m)
     = (case getObject3D e of None \<Rightarrow> scene m | Some n \<Rightarrow> scene_add (nodeRef n) (scene m))"
  "physicsWorld (addEntity e m)
     = (case getPhysicsBody e of None \<Rightarrow> physicsWorld m
        | Some b \<Rightarrow> world_addBody (bodyRef b) (physicsWorld m))"
  "disposeCalls (addEntity e m) = disposeCalls m"
  by (simp_all add: addEntity_def Let_def split: option.split)

lemma remove1_same_iff: "remove1 x xs = xs \<longleftrightarrow> x \<notin> set xs"
proof
  assume e: "remove1 x xs = xs"
  show "x \<notin> set xs"
  proof
    assume m: "x \<in> set xs"
    then have "length (remove1 x xs) = length xs - 1" by (simp add: length_remove1)
    then have "length xs = length xs - 1" by (simp only: e)
    moreover have "0 < length xs" using m by (cases xs) simp_all
    ultimately show False by arith
  qed
next
  assume "x \<notin> set xs"
  then show "remove1 x xs = xs" by (rule remove1_idem)
qed

lemma dispose_calls:
  "dispose e = getId e # (case e of APlayer p \<Rightarrow> [entityId (tank p)] | _ \<Rightarrow> [])"
  by (cases e) simp_all

text \<open>What the manager sees of the entities of the examples below.\<close>

lemma example_entities:
  "getId (ATank (new_tank ident nref bref p r)) = ident"
  "map_option nodeRef (getObject3D (ATank (new_tank ident nref bref p r))) = Some nref"
  "map_option bodyRef (getPhysicsBody (ATank (new_tank ident nref bref p r))) = Some bref"
  "getId (APlayer (new_player pid name (new_tank ident nref bref p r) loc)) = pid"
  "map_option nodeRef (getObject3D (APlayer (new_player pid name (new_tank ident nref bref p r) loc)))
     = Some nref"
  "map_option bodyRef (getPhysicsBody (APlayer (new_player pid name (new_tank ident nref bref p r) loc)))
     = Some bref"
  "dispose (APlayer (new_player pid name (new_tank ident nref bref p r) loc)) = [pid, ident]"
  "getId (AProjectile (new_projectile ident nref bref p dir spd dmg owner)) = ident"
  "map_option nodeRef (getObject3D (AProjectile (new_projectile ident nref bref p dir spd dmg owner)))
     = Some nref"
  "map_option bodyRef (getPhysicsBody (AProjectile (new_projectile ident nref bref p dir spd dmg owner)))
     = Some bref"
  by (simp_all add: new_tank_def new_player_def new_projectile_def Let_def
        Tank_createPhysicsBody_def Projectile_createPhysicsBody_def)

lemma manager_fields:
  assumes "map_option nodeRef (getObject3D e) = Some n"
    and "map_option bodyRef (getPhysicsBody e) = Some b"
  shows "scene (addEntity e m) = scene_add n (scene m)"
    and "physicsWorld (addEntity e m) = world_addBody b (physicsWorld m)"
    and "scene (removeEntity e m) = scene_remove n (scene m)"
    and "physicsWorld (removeEntity e m) = world_removeBody b (physicsWorld m)"
    and "node_attached e m \<longleftrightarrow> n \<in> set (scene m)"
    and "body_attached e m \<longleftrightarrow> b \<in> set (physicsWorld m)"
  using assms
  by (auto simp add: addEntity_fields removeEntity_fields node_attached_def body_attached_def
        split: option.splits)

text \<open>
  C9 (amended). Removing an entity that is not registered leaves the manager's map as it
  is and invokes the entity's disposal, which for a player goes on to dispose the tank of
  the player. It leaves the render scene as it is exactly when the entity's node is not
  attached to the scene, and the physics world as it is exactly when the entity's body is
  not in the world.
\<close>

theorem remove_unregistered:
  assumes "\<not> registered e m"
  shows "entities (removeEntity e m) = entities m
       \<and> disposeCalls (removeEntity e m)
           = disposeCalls m @ getId e
               # (case e of APlayer p \<Rightarrow> [entityId (tank p)] | _ \<Rightarrow> [])
       \<and> (scene (removeEntity e m) = scene m \<longleftrightarrow> \<not> node_attached e m)
       \<and> (physicsWorld (removeEntity e m) = physicsWorld m \<longleftrightarrow> \<not> body_attached e m)"
proof -
  have "getId e \<notin> fst ` set (entities m)" using assms by (simp add: registered_def)
  then have "entities (removeEntity e m) = entities m" by (simp add: removeEntity_fields)
  moreover have "scene (removeEntity e m) = scene m \<longleftrightarrow> \<not> node_attached e m"
    by (simp add: removeEntity_fields node_attached_def scene_remove_def remove1_same_iff
          split: option.splits)
  moreover have "physicsWorld (removeEntity e m) = physicsWorld m \<longleftrightarrow> \<not> body_attached e m"
    by (simp add: removeEntity_fields body_attached_def world_removeBody_def remove1_same_iff
          split: option.splits)
  moreover have "disposeCalls (removeEntity e m)
      = disposeCalls m @ getId e # (case e of APlayer p \<Rightarrow> [entityId (tank p)] | _ \<Rightarrow> [])"
    by (simp only: removeEntity_fields dispose_calls [symmetric])
  ultimately show ?thesis by simp
qed

lemma registered_add:
  "registered e (addEntity e' m) \<longleftrightarrow> getId e = getId e' \<or> registered e m"
  by (simp add: registered_def addEntity_fields dom_update)

lemma registered_empty: "\<not> registered e empty_manager"
  by (simp add: registered_def empty_manager_def)

text \<open>
  A manager that holds one player, whose node 11 and body 12 are those of its tank. The
  tank itself was never added: removing it leaves the map alone, takes node and body out
  of scene and world, and disposes it. A second player that was never added is not
  attached: removing it only disposes, the player and then its tank.
\<close>

theorem remove_unregistered_witness:
  "registered (APlayer (new_player ''player_1'' ''ann'' (new_tank ''tank_1'' 11 12 (vec 0 17 0) (vec 0 0 0)) True)) 
        (addEntity (APlayer (new_player ''player_1'' ''ann'' (new_tank ''tank_1'' 11 12 (vec 0 17 0) (vec 0 0 0)) True)) empty_manager)
   \<and> \<not> registered (ATank (new_tank ''tank_1'' 11 12 (vec 0 17 0) (vec 0 0 0))) 
        (addEntity (APlayer (new_player ''player_1'' ''ann'' (new_tank ''tank_1'' 11 12 (vec 0 17 0) (vec 0 0 0)) True)) empty_manager)
   \<and> node_attached (ATank (new_tank ''tank_1'' 11 12 (vec 0 17 0) (vec 0 0 0))) 
        (addEntity (APlayer (new_player ''player_1'' ''ann'' (new_tank ''tank_1'' 11 12 (vec 0 17 0) (vec 0 0 0)) True)) empty_manager)
   \<and> body_attached (ATank (new_tank ''tank_1'' 11 12 (vec 0 17 0) (vec 0 0 0))) 
        (addEntity (APlayer (new_player ''player_1'' ''ann'' (new_tank ''tank_1'' 11 12 (vec 0 17 0) (vec 0 0 0)) True)) empty_manager)
   \<and> entities (removeEntity (ATank (new_tank ''tank_1'' 11 12 (vec 0 17 0) (vec 0 0 0))) 
        (addEntity (APlayer (new_player ''player_1'' ''ann'' (new_tank ''tank_1'' 11 12 (vec 0 17 0) (vec 0 0 0)) True)) empty_manager)) = entities 
        (addEntity (APlayer (new_player ''player_1'' ''ann'' (new_tank ''tank_1'' 11 12 (vec 0 17 0) (vec 0 0 0)) True)) empty_manager)
   \<and> scene 
        (addEntity (APlayer (new_player ''player_1'' ''ann'' (new_tank ''tank_1'' 11 12 (vec 0 17 0) (vec 0 0 0)) True)) empty_manager) = [11]
   \<and> scene (removeEntity (ATank (new_tank ''tank_1'' 11 12 (vec 0 17 0) (vec 0 0 0))) 
        (addEntity (APlayer (new_player ''player_1'' ''ann'' (new_tank ''tank_1'' 11 12 (vec 0 17 0) (vec 0 0 0)) True)) empty_manager)) = []
   \<and> physicsWorld 
        (addEntity (APlayer (new_player ''player_1'' ''ann'' (new_tank ''tank_1'' 11 12 (vec 0 17 0) (vec 0 0 0)) True)) empty_manager) = [12]
   \<and> physicsWorld (removeEntity (ATank (new_tank ''tank_1'' 11 12 (vec 0 17 0) (vec 0 0 0))) 
        (addEntity (APlayer (new_player ''player_1'' ''ann'' (new_tank ''tank_1'' 11 12 (vec 0 17 0) (vec 0 0 0)) True)) empty_manager)) = []
   \<and> disposeCalls (removeEntity (ATank (new_tank ''tank_1'' 11 12 (vec 0 17 0) (vec 0 0 0))) 
        (addEntity (APlayer (new_player ''player_1'' ''ann'' (new_tank ''tank_1'' 11 12 (vec 0 17 0) (vec 0 0 0)) True)) empty_manager)) = [''tank_1'']
   \<and> \<not> registered (APlayer (new_player ''player_2'' ''bob'' (new_tank ''tank_2'' 13 14 (vec 5 17 0) (vec 0 0 0)) False)) 
        (addEntity (APlayer (new_player ''player_1'' ''ann'' (new_tank ''tank_1'' 11 12 (vec 0 17 0) (vec 0 0 0)) True)) empty_manager)
   \<and> \<not> node_attached (APlayer (new_player ''player_2'' ''bob'' (new_tank ''tank_2'' 13 14 (vec 5 17 0) (vec 0 0 0)) False)) 
        (addEntity (APlayer (new_player ''player_1'' ''ann'' (new_tank ''tank_1'' 11 12 (vec 0 17 0) (vec 0 0 0)) True)) empty_manager)
   \<and> \<not> body_attached (APlayer (new_player ''player_2'' ''bob'' (new_tank ''tank_2'' 13 14 (vec 5 17 0) (vec 0 0 0)) False)) 
        (addEntity (APlayer (new_player ''player_1'' ''ann'' (new_tank ''tank_1'' 11 12 (vec 0 17 0) (vec 0 0 0)) True)) empty_manager)
   \<and> entities (removeEntity (APlayer (new_player ''player_2'' ''bob'' (new_tank ''tank_2'' 13 14 (vec 5 17 0) (vec 0 0 0)) False)) 
        (addEntity (APlayer (new_player ''player_1'' ''ann'' (new_tank ''tank_1'' 11 12 (vec 0 17 0) (vec 0 0 0)) True)) empty_manager)) = entities 
        (addEntity (APlayer (new_player ''player_1'' ''ann'' (new_tank ''tank_1'' 11 12 (vec 0 17 0) (vec 0 0 0)) True)) empty_manager)
   \<and> scene (removeEntity (APlayer (new_player ''player_2'' ''bob'' (new_tank ''tank_2'' 13 14 (vec 5 17 0) (vec 0 0 0)) False)) 
        (addEntity (APlayer (new_player ''player_1'' ''ann'' (new_tank ''tank_1'' 11 12 (vec 0 17 0) (vec 0 0 0)) True)) empty_manager)) = scene 
        (addEntity (APlayer (new_player ''player_1'' ''ann'' (new_tank ''tank_1'' 11 12 (vec 0 17 0) (vec 0 0 0)) True)) empty_manager)
   \<and> physicsWorld (removeEntity (APlayer (new_player ''player_2'' ''bob'' (new_tank ''tank_2'' 13 14 (vec 5 17 0) (vec 0 0 0)) False)) 
        (addEntity (APlayer (new_player ''player_1'' ''ann'' (new_tank ''tank_1'' 11 12 (vec 0 17 0) (vec 0 0 0)) True)) empty_manager)) = physicsWorld 
        (addEntity (APlayer (new_player ''player_1'' ''ann'' (new_tank ''tank_1'' 11 12 (vec 0 17 0) (vec 0 0 0)) True)) empty_manager)
   \<and> disposeCalls (removeEntity (APlayer (new_player ''player_2'' ''bob'' (new_tank ''tank_2'' 13 14 (vec 5 17 0) (vec 0 0 0)) False)) 
        (addEntity (APlayer (new_player ''player_1'' ''ann'' (new_tank ''tank_1'' 11 12 (vec 0 17 0) (vec 0 0 0)) True)) empty_manager)) = [''player_2'', ''tank_2'']"
proof -
  let ?p = "APlayer (new_player ''player_1'' ''ann'' (new_tank ''tank_1'' 11 12 (vec 0 17 0) (vec 0 0 0)) True)"
  let ?m = "addEntity ?p empty_manager"
  let ?a = "ATank (new_tank ''tank_1'' 11 12 (vec 0 17 0) (vec 0 0 0))"
  let ?b = "APlayer (new_player ''player_2'' ''bob'' (new_tank ''tank_2'' 13 14 (vec 5 17 0) (vec 0 0 0)) False)"
  note x = example_entities
  have m: "scene ?m = [11]" "physicsWorld ?m = [12]" "disposeCalls ?m = []"
    by (simp_all add: manager_fields [OF x(5) x(6)] addEntity_fields(4) empty_manager_def
          scene_add_def world_addBody_def)
  have rp: "registered ?p ?m" by (simp add: registered_add)
  have ra: "\<not> registered ?a ?m" by (simp add: registered_add registered_empty new_tank_def new_player_def)
  have rb: "\<not> registered ?b ?m" by (simp add: registered_add registered_empty new_tank_def new_player_def)
  have aa: "node_attached ?a ?m" "body_attached ?a ?m"
    using m by (simp_all add: manager_fields [OF x(2) x(3)])
  have ab: "\<not> node_attached ?b ?m" "\<not> body_attached ?b ?m"
    using m by (simp_all add: manager_fields [OF x(5) x(6)])
  have sa: "scene (removeEntity ?a ?m) = []" "physicsWorld (removeEntity ?a ?m) = []"
    using m by (simp_all add: manager_fields [OF x(2) x(3)] scene_remove_def world_removeBody_def)
  note ua = remove_unregistered [OF ra]
  note ub = remove_unregistered [OF rb]
  have ta: "entities (removeEntity ?a ?m) = entities ?m" by (rule conjunct1 [OF ua])
  have "disposeCalls (removeEntity ?a ?m) = disposeCalls ?m @ dispose ?a"
    by (simp only: conjunct1 [OF conjunct2 [OF ua]] dispose_calls [symmetric])
  moreover have "dispose ?a = [''tank_1'']" by (simp add: new_tank_def)
  ultimately have da: "disposeCalls (removeEntity ?a ?m) = [''tank_1'']"
    by (simp only: m(3) append_Nil)
  have tb: "entities (removeEntity ?b ?m) = entities ?m" by (rule conjunct1 [OF ub])
  have sb: "scene (removeEntity ?b ?m) = scene ?m"
      "physicsWorld (removeEntity ?b ?m) = physicsWorld ?m"
    using conjunct2 [OF conjunct2 [OF ub]] ab by blast+
  have "disposeCalls (removeEntity ?b ?m) = disposeCalls ?m @ dispose ?b"
    by (simp only: conjunct1 [OF conjunct2 [OF ub]] dispose_calls [symmetric])
  then have db: "disposeCalls (removeEntity ?b ?m) = [''player_2'', ''tank_2'']"
    by (simp only: m(3) x(7) append_Nil)
  show ?thesis
    by (intro conjI rp ra rb aa ab sa ta tb m(1,2) da db sb)
qed

text \<open>
  C9 as stated fails. \<open>removeEntity\<close> has no test for membership: it always asks the
  scene and the world to detach the node and the body, and always calls \<open>dispose\<close>. A
  player holds the node and the body of its tank; with the player registered, removing the
  tank (an entity with its own identifier, never registered) takes the shared node out of
  the scene and the shared body out of the world, and disposes. Even on an empty manager
  the disposal of the removed entity runs.
\<close>

theorem remove_unregistered_counterexample:
  "\<not> registered (ATank (new_tank ''tank_1'' 11 12 (vec 0 17 0) (vec 0 0 0))) 
        (addEntity (APlayer (new_player ''player_1'' ''ann'' (new_tank ''tank_1'' 11 12 (vec 0 17 0) (vec 0 0 0)) True)) empty_manager)
   \<and> scene (removeEntity (ATank (new_tank ''tank_1'' 11 12 (vec 0 17 0) (vec 0 0 0))) 
        (addEntity (APlayer (new_player ''player_1'' ''ann'' (new_tank ''tank_1'' 11 12 (vec 0 17 0) (vec 0 0 0)) True)) empty_manager)) \<noteq> scene 
        (addEntity (APlayer (new_player ''player_1'' ''ann'' (new_tank ''tank_1'' 11 12 (vec 0 17 0) (vec 0 0 0)) True)) empty_manager)
   \<and> physicsWorld (removeEntity (ATank (new_tank ''tank_1'' 11 12 (vec 0 17 0) (vec 0 0 0))) 
        (addEntity (APlayer (new_player ''player_1'' ''ann'' (new_tank ''tank_1'' 11 12 (vec 0 17 0) (vec 0 0 0)) True)) empty_manager)) \<noteq> physicsWorld 
        (addEntity (APlayer (new_player ''player_1'' ''ann'' (new_tank ''tank_1'' 11 12 (vec 0 17 0) (vec 0 0 0)) True)) empty_manager)
   \<and> disposeCalls (removeEntity (ATank (new_tank ''tank_1'' 11 12 (vec 0 17 0) (vec 0 0 0))) 
        (addEntity (APlayer (new_player ''player_1'' ''ann'' (new_tank ''tank_1'' 11 12 (vec 0 17 0) (vec 0 0 0)) True)) empty_manager)) \<noteq> disposeCalls 
        (addEntity (APlayer (new_player ''player_1'' ''ann'' (new_tank ''tank_1'' 11 12 (vec 0 17 0) (vec 0 0 0)) True)) empty_manager)
   \<and> \<not> registered (APlayer (new_player ''player_2'' ''bob'' (new_tank ''tank_2'' 13 14 (vec 5 17 0) (vec 0 0 0)) False)) empty_manager
   \<and> disposeCalls (removeEntity (APlayer (new_player ''player_2'' ''bob'' (new_tank ''tank_2'' 13 14 (vec 5 17 0) (vec 0 0 0)) False)) empty_manager) \<noteq> disposeCalls empty_manager"
proof -
  let ?p = "APlayer (new_player ''player_1'' ''ann'' (new_tank ''tank_1'' 11 12 (vec 0 17 0) (vec 0 0 0)) True)"
  let ?m = "addEntity ?p empty_manager"
  let ?a = "ATank (new_tank ''tank_1'' 11 12 (vec 0 17 0) (vec 0 0 0))"
  let ?b = "APlayer (new_player ''player_2'' ''bob'' (new_tank ''tank_2'' 13 14 (vec 5 17 0) (vec 0 0 0)) False)"
  note x = example_entities
  have m: "scene ?m = [11]" "physicsWorld ?m = [12]"
    by (simp_all add: manager_fields [OF x(5) x(6)] empty_manager_def
          scene_add_def world_addBody_def)
  have ra: "\<not> registered ?a ?m" by (simp add: registered_add registered_empty new_tank_def new_player_def)
  have sa: "scene (removeEntity ?a ?m) \<noteq> scene ?m"
      "physicsWorld (removeEntity ?a ?m) \<noteq> physicsWorld ?m"
    using m by (simp_all add: manager_fields [OF x(2) x(3)] scene_remove_def world_removeBody_def)
  have da: "disposeCalls (removeEntity ?a ?m) \<noteq> disposeCalls ?m"
    by (simp add: removeEntity_fields(4))
  have db: "disposeCalls (removeEntity ?b empty_manager) \<noteq> disposeCalls empty_manager"
    by (simp add: removeEntity_fields(4))
  show ?thesis
    by (intro conjI ra sa da db registered_empty)
qed

section \<open>Properties of the terrain\<close>

lemma generateHeightData_fields [simp]:
  "resolution (generateHeightData n t) = resolution t"
  "terrainSize (generateHeightData n t) = terrainSize t"
  "maxHeight (generateHeightData n t) = maxHeight t"
  by (simp_all add: generateHeightData_def)

lemma generate_fields [simp]:
  "resolution (generate n r t) = resolution t"
  "terrainSize (generate n r t) = terrainSize t"
  "maxHeight (generate n r t) = maxHeight t"
  "heightData (generate n r t) = heightData (generateHeightData n t)"
  by (simp_all add: generate_def Terrain_createPhysicsBody_def createTerrainGeometry_def)

lemma generated_sample:
  "i \<le> resolution t \<Longrightarrow> j \<le> resolution t \<Longrightarrow>
   heightData (generateHeightData n t) ! i ! j = sample_height n t i j"
  by (simp add: generateHeightData_def less_Suc_eq_le del: upt_Suc)



lemma sample_height_floor:
  "0 < resolution t \<Longrightarrow> maxHeight t * 0.3 \<le> sample_height n t i j"
  by (simp add: sample_height_def Let_def)

lemma sample_height_nonneg:
  assumes "0 < resolution t" "0 \<le> maxHeight t"
  shows "0 \<le> sample_height n t i j"
proof -
  have "0 \<le> maxHeight t * 0.3" using assms(2) by simp
  also have "\<dots> \<le> sample_height n t i j" using assms(1) by (rule sample_height_floor)
  finally show ?thesis .
qed

lemma octave_loop_bound:
  assumes "\<And>x z. \<bar>n x z\<bar> \<le> 1" "0 \<le> a"
  shows "octave_loop n x z k h f a \<le> h + 2 * a * (1 - (1/2) ^ k)"
  using assms(2)
proof (induction k arbitrary: h f a)
  case 0
  then show ?case by simp
next
  case (Suc k)
  have "n (x * f) (z * f) \<le> 1" using assms(1) [of "x * f" "z * f"] by simp
  then have s: "n (x * f) (z * f) * a \<le> a" using Suc.prems by (simp add: mult_left_le_one_le mult.commute mult_le_cancel_left2)
  have "octave_loop n x z k (h + n (x * f) (z * f) * a) (f * 2) (a * 0.5)
      \<le> (h + n (x * f) (z * f) * a) + 2 * (a * 0.5) * (1 - (1/2) ^ k)"
    using Suc.IH [of "a * 0.5"] Suc.prems by simp
  also have "\<dots> \<le> h + a + a * (1 - (1/2) ^ k)" using s by simp
  also have "\<dots> = h + 2 * a * (1 - (1/2) ^ Suc k)" by (simp add: algebra_simps)
  finally show ?case by simp
qed

lemma octave_loop_6:
  "octave_loop n x z 6 0 1 1
     = n x z + n (x * 2) (z * 2) / 2 + n (x * 4) (z * 4) / 4 + n (x * 8) (z * 8) / 8
       + n (x * 16) (z * 16) / 16 + n (x * 32) (z * 32) / 32"
  by (simp add: eval_nat_numeral)

lemma sample_height_over:
  assumes "0 < resolution t" "0 < maxHeight t"
    and "1 < octave_loop n (real i / real (resolution t)) (real j / real (resolution t)) 6 0 1 1"
  shows "maxHeight t < sample_height n t i j"
proof -
  define h where
    "h = octave_loop n (real i / real (resolution t)) (real j / real (resolution t)) 6 0 1 1"
  define v where "v = (h + 1) / 2 * maxHeight t"
  have "1 < (h + 1) / 2" using assms(3) by (simp add: h_def)
  then have m: "maxHeight t < v" using assms(2) by (simp add: v_def)
  have "maxHeight t * 0.3 \<le> maxHeight t" using assms(2) by simp
  then have "\<not> v < maxHeight t * 0.3" using m by linarith
  then have "sample_height n t i j = v"
    by (simp add: sample_height_def Let_def h_def v_def)
  then show ?thesis using m by simp
qed

lemma sample_height_upper:
  assumes "0 < resolution t" "\<And>x z. \<bar>n x z\<bar> \<le> 1" "0 \<le> maxHeight t"
  shows "sample_height n t i j \<le> 1.484375 * maxHeight t"
proof -
  let ?h = "octave_loop n (real i / real (resolution t)) (real j / real (resolution t)) 6 0 1 1"
  have "?h \<le> 0 + 2 * 1 * (1 - (1/2) ^ 6)"
    by (rule octave_loop_bound) (use assms(2) in simp_all)
  moreover have "0 + 2 * 1 * (1 - (1/2) ^ 6) = (1.96875::real)" by (simp add: power_one_over)
  ultimately have "?h \<le> 1.96875" by (simp only:)
  then have "(?h + 1) / 2 \<le> 1.484375" by simp
  then have "(?h + 1) / 2 * maxHeight t \<le> 1.484375 * maxHeight t"
    using assms(3) by (rule mult_right_mono)
  moreover have "maxHeight t * 0.3 \<le> 1.484375 * maxHeight t" using assms(3) by simp
  ultimately show ?thesis by (simp add: sample_height_def Let_def)
qed

text \<open>
  C1. The specification bounds every sample by \<open>maxHeight\<close>. The code adds six octaves with
  amplitudes \<open>1, 1/2, \<dots>, 1/32\<close>, so the sum ranges over \<open>[-1.96875, 1.96875]\<close>, and
  then maps it as if it ranged over \<open>[-1, 1]\<close>. With the terrain of the game
  (\<open>size = 1000\<close>, \<open>resolution = 128\<close>, \<open>maxHeight = 50\<close>) and a noise primitive that
  returns 0.8 at the first octave of node \<open>(64, 0)\<close> and 0.6 at the second, the sample
  stored there is 52.5, above \<open>maxHeight\<close>; the same happens wherever the six octaves add
  up to more than 1 (\<open>sample_height_over\<close>). The lower bounds hold
  (\<open>sample_height_floor\<close>, \<open>sample_height_nonneg\<close>), and \<open>sample_height_upper\<close> is the
  upper bound the code does keep.
\<close>

theorem height_exceeds_maxHeight:
  "heightData (generateHeightData spike_noise (new_terrain 1000 128 50)) ! 64 ! 0 = 52.5
   \<and> maxHeight (generateHeightData spike_noise (new_terrain 1000 128 50)) = 50
   \<and> (\<forall>x z. \<bar>spike_noise x z\<bar> \<le> 1)"
proof -
  let ?t = "new_terrain 1000 128 50"
  have r: "resolution ?t = 128" "maxHeight ?t = 50" by (simp_all add: new_terrain_def)
  have "heightData (generateHeightData spike_noise ?t) ! 64 ! 0 = sample_height spike_noise ?t 64 0"
    by (rule generated_sample) (simp_all add: r)
  also have "\<dots> = 52.5"
    by (simp add: sample_height_def r Let_def octave_loop_6 spike_noise_def)
  finally show ?thesis by (simp add: r spike_noise_def)
qed

lemma generate_surfaces:
  "visualHeights (generate n r t)
     = map (\<lambda>k. heightData (generateHeightData n t) ! (k div (resolution t + 1))
                   ! (k mod (resolution t + 1)))
         [0..<(resolution t + 1) * (resolution t + 1)]"
  "visualSpan (generate n r t) = terrainSize t"
  "collisionShape (generate n r t)
     = Some (Heightfield (heightfieldData (generateHeightData n t))
              (terrainSize t / real (resolution t)))"
  by (simp_all add: visualHeights_def visualSpan_def collisionShape_def generate_def
        Terrain_createPhysicsBody_def createTerrainGeometry_def heightfieldData_def)

lemma collision_counts:
  "length (visualHeights (generate n r t)) = (resolution t + 1) * (resolution t + 1)"
  "length (collisionSamples (generate n r t)) = resolution t"
  "list_all (\<lambda>row. length row = resolution t) (collisionSamples (generate n r t))"
  "collisionSpan (generate n r t)
     = (real (resolution t) - 1) * (terrainSize t / real (resolution t))"
  by (simp_all add: generate_surfaces collisionSamples_def collisionSpan_def
        heightfieldSamples_def heightfieldSpan_def heightfieldData_def list_all_iff)

lemma collision_values:
  "i < resolution t \<Longrightarrow> j < resolution t \<Longrightarrow>
   collisionSamples (generate n r t) ! i ! j = heightData (generate n r t) ! i ! j"
  by (simp add: generate_surfaces collisionSamples_def heightfieldSamples_def heightfieldData_def)

text \<open>
  C2. The specification wants the collision surface built from the same grid as the
  visual surface, with no mismatch. The visual plane takes all \<open>(resolution + 1)\<^sup>2\<close> grid
  values; the height-field takes only those with both indices below \<open>resolution\<close>. For
  the terrain of the game the visual surface has \<open>129 \<times> 129\<close> vertices over a side of
  1000, the collision surface \<open>128 \<times> 128\<close> samples spaced \<open>1000 / 128\<close> apart, a side of
  992.1875: the last row and column of the grid are missing from it. Where both have a
  sample the values agree (\<open>collision_values\<close>).
\<close>

theorem collision_surface_short:
  "length (visualHeights (generate noise2D ref (new_terrain 1000 128 50))) = 129 * 129
   \<and> visualSpan (generate noise2D ref (new_terrain 1000 128 50)) = 1000
   \<and> length (collisionSamples (generate noise2D ref (new_terrain 1000 128 50))) = 128
   \<and> list_all (\<lambda>row. length row = 128)
        (collisionSamples (generate noise2D ref (new_terrain 1000 128 50)))
   \<and> collisionSpan (generate noise2D ref (new_terrain 1000 128 50)) = 992.1875"
proof -
  have r: "resolution (new_terrain 1000 128 50) = 128" "terrainSize (new_terrain 1000 128 50) = 1000"
    by (simp_all add: new_terrain_def)
  show ?thesis
    using collision_counts [where n = noise2D and r = ref and t = "new_terrain 1000 128 50"]
      generate_surfaces(2) [where n = noise2D and r = ref and t = "new_terrain 1000 128 50"]
    by (simp add: r)
qed

subsection \<open>The height query\<close>



















end
